theory Spec2Isabelle
  imports Main "HOL-Library.Word"
begin

section \<open>Data model\<close>

text \<open>
  Go errors. A collaborator's error is \<open>Error msg\<close>; \<open>fmt.Errorf(format, args...)\<close>
  is kept as the format string with its arguments, in the order of the call.
\<close>

datatype error = Error string | Errorf string "fmtarg list"
  and fmtarg = ArgInt int | ArgString string | ArgError error

type_synonym bytes = "8 word list"

text \<open>
  \<open>*rpctest.Harness\<close>: every successful \<open>rpctest.New\<close> gives a fresh pointer. The
  harness is identified by the number of \<open>rpctest.New\<close> calls made before the one that
  created it.
\<close>

datatype harness = Harness nat

text \<open>\<open>rpcclient.FutureGenerateResult\<close>: the request issued on a node, with its block count.\<close>

datatype future = FutureGenerateResult harness "32 word"

text \<open>\<open>*os.File\<close>, by the name \<open>fh.Name()\<close> reports.\<close>

datatype os_file = File (Name: string)

datatype open_flag =
  O_RDONLY | O_WRONLY | O_RDWR | O_APPEND | O_CREATE | O_EXCL | O_SYNC | O_TRUNC

text \<open>\<open>os.FileInfo\<close>, as far as \<open>runNet\<close> reads it.\<close>

datatype file_info = FileInfo (IsDir: bool)

text \<open>The calls that leave the process, in the order they are made.\<close>

datatype event =
    E_New nat
  | E_SetUp harness
  | E_TearDown harness "error option"
  | E_ConnectNodes "harness list"
  | E_GenerateAsync harness "32 word"
  | E_Receive future
  | E_RenderDagsDot "harness list"
  | E_DotToSvg bytes
  | E_StripSvgXmlDecl bytes
  | E_RenderSvgHTML bytes string
  | E_TempFile string string
  | E_Stat string
  | E_OpenFile string "open_flag set" nat
  | E_Write os_file bytes
  | E_Close os_file
  | E_Println "fmtarg list"

text \<open>
  The collaborators \<open>runNet\<close> calls (packages \<open>rpctest\<close>, \<open>rpcclient\<close>, \<open>soterutil\<close>,
  \<open>os\<close>, \<open>io/ioutil\<close>) are parameters: what each call answers in one run.
\<close>

record env =
  new_err :: "nat \<Rightarrow> error option"
  setup_err :: "harness \<Rightarrow> error option"
  teardown_err :: "harness \<Rightarrow> error option"
  connect_err :: "harness list \<Rightarrow> error option"
  receive_res :: "future \<Rightarrow> error + bytes list"
  render_dags_dot :: "harness list \<Rightarrow> error + bytes"
  dot_to_svg :: "bytes \<Rightarrow> error + bytes"
  strip_svg_xml_decl :: "bytes \<Rightarrow> error + bytes"
  render_svg_html :: "bytes \<Rightarrow> string \<Rightarrow> error + bytes"
  temp_file :: "string \<Rightarrow> string \<Rightarrow> error + string"
  stat :: "string \<Rightarrow> error + file_info"
  open_file_err :: "string \<Rightarrow> error option"
  write_err :: "os_file \<Rightarrow> bytes \<Rightarrow> error option"
  close_err :: "os_file \<Rightarrow> error option"

text \<open>The state threaded through a run: the calls made so far and the number of
  \<open>rpctest.New\<close> calls among them.\<close>

record world =
  trace :: "event list"
  news :: nat

definition emit :: "event \<Rightarrow> world \<Rightarrow> world" where
  "emit e w = w\<lparr>trace := trace w @ [e]\<rparr>"

section \<open>Collaborator calls\<close>

definition rpctest_New :: "env \<Rightarrow> world \<Rightarrow> (error + harness) \<times> world" where
  "rpctest_New env w =
     ((case new_err env (news w) of
         Some err \<Rightarrow> Inl err
       | None \<Rightarrow> Inr (Harness (news w))),
      (emit (E_New (news w)) w)\<lparr>news := Suc (news w)\<rparr>)"

definition SetUp :: "env \<Rightarrow> harness \<Rightarrow> world \<Rightarrow> error option \<times> world" where
  "SetUp env miner w = (setup_err env miner, emit (E_SetUp miner) w)"

definition TearDown :: "env \<Rightarrow> harness \<Rightarrow> world \<Rightarrow> error option \<times> world" where
  "TearDown env miner w =
     (teardown_err env miner, emit (E_TearDown miner (teardown_err env miner)) w)"

definition ConnectNodes :: "env \<Rightarrow> harness list \<Rightarrow> world \<Rightarrow> error option \<times> world" where
  "ConnectNodes env miners w = (connect_err env miners, emit (E_ConnectNodes miners) w)"

definition GenerateAsync :: "harness \<Rightarrow> 32 word \<Rightarrow> world \<Rightarrow> future \<times> world" where
  "GenerateAsync miner n w = (FutureGenerateResult miner n, emit (E_GenerateAsync miner n) w)"

definition Receive :: "env \<Rightarrow> future \<Rightarrow> world \<Rightarrow> (error + bytes list) \<times> world" where
  "Receive env fut w = (receive_res env fut, emit (E_Receive fut) w)"

definition RenderDagsDot :: "env \<Rightarrow> harness list \<Rightarrow> world \<Rightarrow> (error + bytes) \<times> world" where
  "RenderDagsDot env miners w = (render_dags_dot env miners, emit (E_RenderDagsDot miners) w)"

definition DotToSvg :: "env \<Rightarrow> bytes \<Rightarrow> world \<Rightarrow> (error + bytes) \<times> world" where
  "DotToSvg env dot w = (dot_to_svg env dot, emit (E_DotToSvg dot) w)"

definition StripSvgXmlDecl :: "env \<Rightarrow> bytes \<Rightarrow> world \<Rightarrow> (error + bytes) \<times> world" where
  "StripSvgXmlDecl env svg w = (strip_svg_xml_decl env svg, emit (E_StripSvgXmlDecl svg) w)"

definition RenderSvgHTML :: "env \<Rightarrow> bytes \<Rightarrow> string \<Rightarrow> world \<Rightarrow> (error + bytes) \<times> world" where
  "RenderSvgHTML env svg title w =
     (render_svg_html env svg title, emit (E_RenderSvgHTML svg title) w)"

definition TempFile :: "env \<Rightarrow> string \<Rightarrow> string \<Rightarrow> world \<Rightarrow> (error + os_file) \<times> world" where
  "TempFile env dir pattern w =
     ((case temp_file env dir pattern of
         Inl err \<Rightarrow> Inl err
       | Inr name \<Rightarrow> Inr (File name)),
      emit (E_TempFile dir pattern) w)"

definition Stat :: "env \<Rightarrow> string \<Rightarrow> world \<Rightarrow> (error + file_info) \<times> world" where
  "Stat env name w = (stat env name, emit (E_Stat name) w)"

text \<open>\<open>os.OpenFile\<close>: the file it opens reports the name it was opened under.\<close>

definition OpenFile ::
  "env \<Rightarrow> string \<Rightarrow> open_flag set \<Rightarrow> nat \<Rightarrow> world \<Rightarrow> (error + os_file) \<times> world" where
  "OpenFile env name flag perm w =
     ((case open_file_err env name of
         Some err \<Rightarrow> Inl err
       | None \<Rightarrow> Inr (File name)),
      emit (E_OpenFile name flag perm) w)"

definition Write :: "env \<Rightarrow> os_file \<Rightarrow> bytes \<Rightarrow> world \<Rightarrow> error option \<times> world" where
  "Write env fh b w = (write_err env fh b, emit (E_Write fh b) w)"

definition Close :: "env \<Rightarrow> os_file \<Rightarrow> world \<Rightarrow> error option \<times> world" where
  "Close env fh w = (close_err env fh, emit (E_Close fh) w)"

definition Println :: "fmtarg list \<Rightarrow> world \<Rightarrow> world" where
  "Println args w = emit (E_Println args) w"

section \<open>cmd/dagdemo/dagdemo.go\<close>

text \<open>
  \<open>runNet\<close>, lines 26 to 37: the loop \<open>for i := 0; i < minerCount; i++\<close>. A failure
  returns from \<open>runNet\<close> at once.
\<close>

function spawn_miners ::
  "env \<Rightarrow> int \<Rightarrow> int \<Rightarrow> harness list \<Rightarrow> world \<Rightarrow> (error + harness list) \<times> world" where
  "spawn_miners env i minerCount miners w =
     (if i < minerCount then
        (case rpctest_New env w of
           (Inl err, w1) \<Rightarrow>
             (Inl (Errorf ''unable to create mining node %d: %s'' [ArgInt i, ArgError err]), w1)
         | (Inr miner, w1) \<Rightarrow>
             (case SetUp env miner w1 of
                (Some err, w2) \<Rightarrow>
                  (Inl (Errorf ''unable to complete mining node %d setup: %s''
                          [ArgInt i, ArgError err]), w2)
              | (None, w2) \<Rightarrow> spawn_miners env (i + 1) minerCount (miners @ [miner]) w2))
      else (Inr miners, w))"
  by pat_completeness auto
termination
  by (relation "measure (\<lambda>(env, i, minerCount, miners, w). nat (minerCount - i))") auto

declare spawn_miners.simps [simp del]

text \<open>Lines 39 to 43: the deferred function. The error of \<open>TearDown\<close> is dropped.\<close>

fun teardown_miners :: "env \<Rightarrow> harness list \<Rightarrow> world \<Rightarrow> world" where
  "teardown_miners env [] w = w"
| "teardown_miners env (miner # rest) w =
     (case TearDown env miner w of (_, w1) \<Rightarrow> teardown_miners env rest w1)"

text \<open>Lines 52 to 56: one \<open>GenerateAsync(uint32(blockCount))\<close> per miner.\<close>

fun generate_blocks ::
  "harness list \<Rightarrow> int \<Rightarrow> future list \<Rightarrow> world \<Rightarrow> future list \<times> world" where
  "generate_blocks [] blockCount futures w = (futures, w)"
| "generate_blocks (miner # rest) blockCount futures w =
     (case GenerateAsync miner (word_of_int blockCount) w of
        (fut, w1) \<Rightarrow> generate_blocks rest blockCount (futures @ [fut]) w1)"

text \<open>Lines 59 to 64: \<open>for i, future := range futures\<close>, returning at the first error.\<close>

fun wait_futures :: "env \<Rightarrow> int \<Rightarrow> future list \<Rightarrow> world \<Rightarrow> error option \<times> world" where
  "wait_futures env i [] w = (None, w)"
| "wait_futures env i (fut # rest) w =
     (case Receive env fut w of
        (Inl err, w1) \<Rightarrow>
          (Some (Errorf ''failed to wait for blocks to generate on node %d: %s''
                   [ArgInt i, ArgError err]), w1)
      | (Inr _, w1) \<Rightarrow> wait_futures env (i + 1) rest w1)"

text \<open>Lines 66 to 88: DOT, SVG, the SVG without its xml declaration, the HTML document.\<close>

definition render_html :: "env \<Rightarrow> harness list \<Rightarrow> world \<Rightarrow> (error + bytes) \<times> world" where
  "render_html env miners w =
     (case RenderDagsDot env miners w of
        (Inl err, w1) \<Rightarrow>
          (Inl (Errorf ''failed to render dag in graphviz DOT format: %s'' [ArgError err]), w1)
      | (Inr dot, w1) \<Rightarrow>
     (case DotToSvg env dot w1 of
        (Inl err, w2) \<Rightarrow>
          (Inl (Errorf ''failed to convert DOT file to SVG: %s'' [ArgError err]), w2)
      | (Inr svg, w2) \<Rightarrow>
     (case StripSvgXmlDecl env svg w2 of
        (Inl err, w3) \<Rightarrow>
          (Inl (Errorf ''failed to strip xml declaration from SVG image: %s'' [ArgError err]),
           w3)
      | (Inr svgEmbed, w3) \<Rightarrow>
     (case RenderSvgHTML env svgEmbed ''dag'' w3 of
        (Inl err, w4) \<Rightarrow>
          (Inl (Errorf ''failed to render SVG image as HTML: %s'' [ArgError err]), w4)
      | (Inr h, w4) \<Rightarrow> (Inr h, w4)))))"

text \<open>Lines 91 to 105: where the document goes. \<open>0644\<close> is octal.\<close>

definition open_output :: "env \<Rightarrow> string \<Rightarrow> world \<Rightarrow> (error + os_file) \<times> world" where
  "open_output env output w =
     (let pattern = ''dag_*.html'' in
      if length output = 0 then TempFile env '''' pattern w
      else
        (case Stat env output w of
           (Inr info, w1) \<Rightarrow>
             (if IsDir info then TempFile env output pattern w1
              else OpenFile env output {O_RDWR, O_CREATE, O_TRUNC} (6 * 64 + 4 * 8 + 4) w1)
         | (Inl pathErr, w1) \<Rightarrow>
             OpenFile env output {O_RDWR, O_CREATE, O_TRUNC} (6 * 64 + 4 * 8 + 4) w1))"

text \<open>\<open>save\<close>, lines 121 to 133.\<close>

definition save :: "env \<Rightarrow> bytes \<Rightarrow> os_file \<Rightarrow> world \<Rightarrow> error option \<times> world" where
  "save env b fh w =
     (case Write env fh b w of
        (Some err, w1) \<Rightarrow> (Some err, w1)
      | (None, w1) \<Rightarrow>
          (case Close env fh w1 of
             (Some err, w2) \<Rightarrow> (Some err, w2)
           | (None, w2) \<Rightarrow> (None, w2)))"

text \<open>Lines 45 to 117: what \<open>runNet\<close> does once the deferred function is registered.\<close>

definition runNet_body ::
  "env \<Rightarrow> harness list \<Rightarrow> int \<Rightarrow> string \<Rightarrow> world \<Rightarrow> (string \<times> error option) \<times> world" where
  "runNet_body env miners blockCount output w =
     (case ConnectNodes env miners w of
        (Some err, w1) \<Rightarrow>
          (('''', Some (Errorf ''unable to connect nodes: %s'' [ArgError err])), w1)
      | (None, w1) \<Rightarrow>
     (case generate_blocks miners blockCount [] w1 of (futures, w2) \<Rightarrow>
     (case wait_futures env 0 futures w2 of
        (Some err, w3) \<Rightarrow> (('''', Some err), w3)
      | (None, w3) \<Rightarrow>
     (case render_html env miners w3 of
        (Inl err, w4) \<Rightarrow> (('''', Some err), w4)
      | (Inr h, w4) \<Rightarrow>
     (case open_output env output w4 of
        (Inl err, w5) \<Rightarrow>
          (('''', Some (Errorf ''failed to create output file-handle: %s'' [ArgError err])), w5)
      | (Inr fh, w5) \<Rightarrow>
     (case save env h fh w5 of
        (Some err, w6) \<Rightarrow>
          (('''', Some (Errorf ''failed to save HTML file: %s'' [ArgError err])), w6)
      | (None, w6) \<Rightarrow> ((Name fh, None), w6)))))))"

text \<open>
  \<open>runNet\<close>. A return out of the spawning loop happens before the \<open>defer\<close> statement of
  line 39 is reached; every later return runs the deferred function first.
\<close>

definition runNet ::
  "env \<Rightarrow> int \<Rightarrow> int \<Rightarrow> string \<Rightarrow> world \<Rightarrow> (string \<times> error option) \<times> world" where
  "runNet env minerCount blockCount output w =
     (case spawn_miners env 0 minerCount [] w of
        (Inl err, w1) \<Rightarrow> (('''', Some err), w1)
      | (Inr miners, w1) \<Rightarrow>
          (case runNet_body env miners blockCount output w1 of
             (r, w2) \<Rightarrow> (r, teardown_miners env miners w2)))"

text \<open>
  \<open>main\<close>, lines 135 to 147, from the value \<open>flag.Parse\<close> leaves in \<open>output\<close>. The
  result is the exit status of the process: \<open>syscall.Exit(1)\<close>, or 0 when \<open>main\<close> returns.
\<close>

definition main :: "env \<Rightarrow> string \<Rightarrow> world \<Rightarrow> int \<times> world" where
  "main env output w =
     (let w1 = Println [ArgString ''Generating dag''] w in
      case runNet env 4 50 output w1 of
        ((htmlFile, Some err), w2) \<Rightarrow> (1, Println [ArgError err] w2)
      | ((htmlFile, None), w2) \<Rightarrow>
          (0, Println [ArgString ''Saved dag to'', ArgString htmlFile] w2))"

section \<open>wire/msgverack.go\<close>

text \<open>\<open>type MsgVerAck struct{}\<close>\<close>

datatype MsgVerAck = MsgVerAck

text \<open>
  An \<open>io.Reader\<close> is the bytes still to be read, an \<open>io.Writer\<close> the bytes written so
  far. Each method returns its error with the receiver and the stream as the call leaves
  them. \<open>MessageEncoding\<close> is declared elsewhere in the package; it is a type parameter.
\<close>

definition SotoDecode ::
  "MsgVerAck \<Rightarrow> bytes \<Rightarrow> 32 word \<Rightarrow> 'enc \<Rightarrow> error option \<times> MsgVerAck \<times> bytes" where
  "SotoDecode msg r pver enc = (None, msg, r)"

definition SotoEncode ::
  "MsgVerAck \<Rightarrow> bytes \<Rightarrow> 32 word \<Rightarrow> 'enc \<Rightarrow> error option \<times> MsgVerAck \<times> bytes" where
  "SotoEncode msg w pver enc = (None, msg, w)"

text \<open>\<open>CmdVerAck\<close> is a constant declared elsewhere in the package; it is a parameter.\<close>

definition Command :: "string \<Rightarrow> MsgVerAck \<Rightarrow> string" where
  "Command CmdVerAck msg = CmdVerAck"

definition MaxPayloadLength :: "MsgVerAck \<Rightarrow> 32 word \<Rightarrow> 32 word" where
  "MaxPayloadLength msg pver = 0"

definition NewMsgVerAck :: MsgVerAck where
  "NewMsgVerAck = MsgVerAck"

section \<open>Stages of a run\<close>

text \<open>The stage of the orchestration a call belongs to.\<close>

datatype stage = S_Provision | S_Mesh | S_Dispatch | S_Collect | S_Render | S_Output | S_Teardown | S_Console

fun stage_of :: "event \<Rightarrow> stage" where
  "stage_of (E_New k) = S_Provision"
| "stage_of (E_SetUp m) = S_Provision"
| "stage_of (E_TearDown m r) = S_Teardown"
| "stage_of (E_ConnectNodes ms) = S_Mesh"
| "stage_of (E_GenerateAsync m n) = S_Dispatch"
| "stage_of (E_Receive f) = S_Collect"
| "stage_of (E_RenderDagsDot ms) = S_Render"
| "stage_of (E_DotToSvg d) = S_Render"
| "stage_of (E_StripSvgXmlDecl s) = S_Render"
| "stage_of (E_RenderSvgHTML s t) = S_Render"
| "stage_of (E_TempFile d p) = S_Output"
| "stage_of (E_Stat n) = S_Output"
| "stage_of (E_OpenFile n f p) = S_Output"
| "stage_of (E_Write fh b) = S_Output"
| "stage_of (E_Close fh) = S_Output"
| "stage_of (E_Println args) = S_Console"

text \<open>
  Provisioning succeeds for \<open>n\<close> nodes from the \<open>k\<close>-th \<open>rpctest.New\<close> call on: each
  of these calls answers a harness, and \<open>SetUp\<close> succeeds on it.
\<close>

definition provisioned :: "env \<Rightarrow> nat \<Rightarrow> nat \<Rightarrow> bool" where
  "provisioned env k n =
     list_all (\<lambda>j. new_err env j = None \<and> setup_err env (Harness j) = None) [k..<k + n]"

text \<open>The calls a successful provisioning of \<open>n\<close> nodes makes.\<close>

definition spawn_events :: "nat \<Rightarrow> nat \<Rightarrow> event list" where
  "spawn_events k n = concat (map (\<lambda>j. [E_New j, E_SetUp (Harness j)]) [k..<k + n])"

section \<open>Concrete runs\<close>

definition world0 :: world where
  "world0 = \<lparr>trace = [], news = 0\<rparr>"

text \<open>Every collaborator succeeds; the documents are one byte each.\<close>

definition env_ok :: env where
  "env_ok = \<lparr>
     new_err = (\<lambda>k. None),
     setup_err = (\<lambda>m. None),
     teardown_err = (\<lambda>m. None),
     connect_err = (\<lambda>ms. None),
     receive_res = (\<lambda>f. Inr []),
     render_dags_dot = (\<lambda>ms. Inr [1]),
     dot_to_svg = (\<lambda>d. Inr [2]),
     strip_svg_xml_decl = (\<lambda>s. Inr [3]),
     render_svg_html = (\<lambda>s t. Inr [4]),
     temp_file = (\<lambda>dir pattern. Inr (dir @ ''/dag_1.html'')),
     stat = (\<lambda>name. if name = ''out'' then Inr (FileInfo True) else Inl (Error ''no such file'')),
     open_file_err = (\<lambda>name. None),
     write_err = (\<lambda>fh b. None),
     close_err = (\<lambda>fh. None)\<rparr>"

text \<open>The third \<open>rpctest.New\<close> fails.\<close>

definition env_new2_fails :: env where
  "env_new2_fails = env_ok\<lparr>new_err := (\<lambda>k. if k = 2 then Some (Error ''boom'') else None)\<rparr>"

text \<open>\<open>TearDown\<close> fails on the first harness.\<close>

definition env_teardown0_fails :: env where
  "env_teardown0_fails =
     env_ok\<lparr>teardown_err := (\<lambda>m. if m = Harness 0 then Some (Error ''boom'') else None)\<rparr>"

text \<open>\<open>Receive\<close> fails on the future of the first harness.\<close>

definition env_receive0_fails :: env where
  "env_receive0_fails =
     env_ok\<lparr>receive_res :=
       (\<lambda>f. if f = FutureGenerateResult (Harness 0) 50 then Inl (Error ''boom'') else Inr [])\<rparr>"

text \<open>\<open>Receive\<close> fails on the future of the second harness.\<close>

definition env_receive1_fails :: env where
  "env_receive1_fails =
     env_ok\<lparr>receive_res :=
       (\<lambda>f. if f = FutureGenerateResult (Harness 1) 50 then Inl (Error ''boom'') else Inr [])\<rparr>"

text \<open>The rendering stage numbered \<open>k\<close> (from 0: DOT, SVG, stripping, HTML) fails.\<close>

definition env_render_fails :: "int \<Rightarrow> env" where
  "env_render_fails k =
     env_ok\<lparr>
       render_dags_dot := (\<lambda>ms. if k = 0 then Inl (Error ''boom'') else Inr [1]),
       dot_to_svg := (\<lambda>d. if k = 1 then Inl (Error ''boom'') else Inr [2]),
       strip_svg_xml_decl := (\<lambda>s. if k = 2 then Inl (Error ''boom'') else Inr [3]),
       render_svg_html := (\<lambda>s t. if k = 3 then Inl (Error ''boom'') else Inr [4])\<rparr>"

section \<open>The verack message\<close>

text \<open>
  C9. For every reader, writer, protocol version and message encoding, \<open>SotoDecode\<close> and
  \<open>SotoEncode\<close> return nil, read or write no byte, and leave the receiver as it was.
\<close>

theorem verack_decode_encode_nop:
  "SotoDecode msg r pver enc = (None, msg, r) \<and> SotoEncode msg wr pver enc = (None, msg, wr)"
  by (simp add: SotoDecode_def SotoEncode_def)

text \<open>
  C10. \<open>MaxPayloadLength\<close> is 0 for every protocol version, and \<open>Command\<close> is the
  package's verack command string.
\<close>

theorem verack_payload_and_command:
  "MaxPayloadLength msg pver = 0 \<and> Command CmdVerAck msg = CmdVerAck"
  by (simp add: MaxPayloadLength_def Command_def)

section \<open>Evaluating a run\<close>

lemmas prim_defs = rpctest_New_def SetUp_def TearDown_def ConnectNodes_def GenerateAsync_def
  Receive_def RenderDagsDot_def DotToSvg_def StripSvgXmlDecl_def RenderSvgHTML_def TempFile_def
  Stat_def OpenFile_def Write_def Close_def Println_def emit_def

lemmas run_defs = runNet_def runNet_body_def spawn_miners.simps render_html_def open_output_def
  save_def Let_def

lemma world0_trace: "trace world0 = []"
  by (simp add: world0_def)

lemma trace_emit [simp]: "trace (emit e w) = trace w @ [e]"
  by (simp add: emit_def)

lemma news_emit [simp]: "news (emit e w) = news w"
  by (simp add: emit_def)

lemma run_ok_2:
  "runNet env_ok 2 50 [] world0 =
     ((''/dag_1.html'', None),
      \<lparr>trace = [E_New 0, E_SetUp (Harness 0), E_New 1, E_SetUp (Harness 1),
                E_ConnectNodes [Harness 0, Harness 1],
                E_GenerateAsync (Harness 0) 50, E_GenerateAsync (Harness 1) 50,
                E_Receive (FutureGenerateResult (Harness 0) 50),
                E_Receive (FutureGenerateResult (Harness 1) 50),
                E_RenderDagsDot [Harness 0, Harness 1], E_DotToSvg [1],
                E_StripSvgXmlDecl [2], E_RenderSvgHTML [3] ''dag'',
                E_TempFile [] ''dag_*.html'',
                E_Write (File ''/dag_1.html'') [4], E_Close (File ''/dag_1.html''),
                E_TearDown (Harness 0) None, E_TearDown (Harness 1) None],
       news = 2\<rparr>)"
  by (simp add: run_defs prim_defs env_ok_def world0_def)

section \<open>Provisioning\<close>

text \<open>
  C1. With four nodes asked for and the creation of node 2 failing, \<open>runNet\<close> returns the
  error citing index 2 after creating and setting up nodes 0 and 1, and no \<open>TearDown\<close> has
  been called: the handles of nodes 0 and 1 are left running.
\<close>

theorem provision_failure_leaks:
  "runNet env_new2_fails 4 50 '''' world0 =
     (('''', Some (Errorf ''unable to create mining node %d: %s''
                     [ArgInt 2, ArgError (Error ''boom'')])),
      \<lparr>trace = [E_New 0, E_SetUp (Harness 0), E_New 1, E_SetUp (Harness 1), E_New 2],
       news = 3\<rparr>)"
  by (simp add: runNet_def spawn_miners.simps rpctest_New_def SetUp_def emit_def
      env_new2_fails_def env_ok_def world0_def)

lemma provisioned_Suc:
  "provisioned env k (Suc n) \<longleftrightarrow>
     new_err env k = None \<and> setup_err env (Harness k) = None \<and> provisioned env (Suc k) n"
  by (simp add: provisioned_def upt_conv_Cons del: upt_Suc)

lemma spawn_events_Suc:
  "spawn_events k (Suc n) = E_New k # E_SetUp (Harness k) # spawn_events (Suc k) n"
  by (simp add: spawn_events_def upt_conv_Cons del: upt_Suc)

lemma spawn_events_stage: "\<forall>e\<in>set (spawn_events k n). stage_of e = S_Provision"
  by (auto simp: spawn_events_def)

lemma spawn_miners_ok:
  "provisioned env (news w) (nat (minerCount - i)) \<Longrightarrow>
   spawn_miners env i minerCount miners w =
     (Inr (miners @ map Harness [news w..<news w + nat (minerCount - i)]),
      w\<lparr>trace := trace w @ spawn_events (news w) (nat (minerCount - i)),
        news := news w + nat (minerCount - i)\<rparr>)"
proof (induction env i minerCount miners w rule: spawn_miners.induct)
  case (1 env i minerCount miners w)
  show ?case
  proof (cases "i < minerCount")
    case False
    then show ?thesis
      by (simp add: spawn_miners.simps [of env i minerCount miners w] spawn_events_def)
  next
    case True
    then have n: "nat (minerCount - i) = Suc (nat (minerCount - (i + 1)))" by simp
    let ?w2 = "emit (E_SetUp (Harness (news w))) ((emit (E_New (news w)) w)\<lparr>news := Suc (news w)\<rparr>)"
    from "1.prems" n have p: "new_err env (news w) = None" "setup_err env (Harness (news w)) = None"
      "provisioned env (Suc (news w)) (nat (minerCount - (i + 1)))"
      by (simp_all add: provisioned_Suc)
    have new: "rpctest_New env w = (Inr (Harness (news w)), (emit (E_New (news w)) w)\<lparr>news := Suc (news w)\<rparr>)"
      by (simp add: rpctest_New_def p)
    have su: "SetUp env (Harness (news w)) ((emit (E_New (news w)) w)\<lparr>news := Suc (news w)\<rparr>) = (None, ?w2)"
      by (simp add: SetUp_def p)
    have nw: "news ?w2 = Suc (news w)" by simp
    from p(3) have "provisioned env (news ?w2) (nat (minerCount - (i + 1)))" by (simp add: nw)
    from "1.IH" [OF True new [symmetric] refl su [symmetric] refl this]
    have ih: "spawn_miners env (i + 1) minerCount (miners @ [Harness (news w)]) ?w2 =
      (Inr ((miners @ [Harness (news w)]) @ map Harness [news ?w2..<news ?w2 + nat (minerCount - (i + 1))]),
       ?w2\<lparr>trace := trace ?w2 @ spawn_events (news ?w2) (nat (minerCount - (i + 1))),
            news := news ?w2 + nat (minerCount - (i + 1))\<rparr>)" .
    show ?thesis
      apply (subst spawn_miners.simps)
      apply (simp only: True if_True new su prod.case sum.case option.case ih n)
      apply (simp add: spawn_events_Suc upt_conv_Cons emit_def del: upt_Suc)
      done
  qed
qed

lemma spawn_miners_Inr_provisioned:
  "spawn_miners env i minerCount miners w = (Inr ms, w') \<Longrightarrow>
   provisioned env (news w) (nat (minerCount - i))"
proof (induction env i minerCount miners w rule: spawn_miners.induct)
  case (1 env i minerCount miners w)
  show ?case
  proof (cases "i < minerCount")
    case False
    then show ?thesis by (simp add: provisioned_def)
  next
    case True
    then have n: "nat (minerCount - i) = Suc (nat (minerCount - (i + 1)))" by simp
    let ?w1 = "(emit (E_New (news w)) w)\<lparr>news := Suc (news w)\<rparr>"
    let ?w2 = "emit (E_SetUp (Harness (news w))) ?w1"
    from "1.prems" True have a: "new_err env (news w) = None"
      by (subst (asm) spawn_miners.simps) (auto simp: rpctest_New_def split: option.splits)
    then have new: "rpctest_New env w = (Inr (Harness (news w)), ?w1)"
      by (simp add: rpctest_New_def)
    from "1.prems" True new have b: "setup_err env (Harness (news w)) = None"
      by (subst (asm) spawn_miners.simps) (auto simp: SetUp_def split: option.splits)
    then have su: "SetUp env (Harness (news w)) ?w1 = (None, ?w2)"
      by (simp add: SetUp_def)
    from "1.prems" True new su
    have rec: "spawn_miners env (i + 1) minerCount (miners @ [Harness (news w)]) ?w2 = (Inr ms, w')"
      by (subst (asm) spawn_miners.simps) simp
    from "1.IH" [OF True new [symmetric] refl su [symmetric] refl rec]
    have "provisioned env (Suc (news w)) (nat (minerCount - (i + 1)))" by simp
    with a b show ?thesis by (simp add: n provisioned_Suc)
  qed
qed

lemma spawn_miners_stage:
  "spawn_miners env i minerCount miners w = (r, w') \<Longrightarrow>
   \<exists>es. trace w' = trace w @ es \<and> (\<forall>e\<in>set es. stage_of e = S_Provision)"
proof (induction env i minerCount miners w rule: spawn_miners.induct)
  case (1 env i minerCount miners w)
  show ?case
  proof (cases "i < minerCount")
    case False
    with "1.prems" show ?thesis by (simp add: spawn_miners.simps [of env i minerCount miners w])
  next
    case True
    let ?w1 = "(emit (E_New (news w)) w)\<lparr>news := Suc (news w)\<rparr>"
    let ?w2 = "emit (E_SetUp (Harness (news w))) ?w1"
    have t1: "trace ?w1 = trace w @ [E_New (news w)]" by simp
    have t2: "trace ?w2 = trace w @ [E_New (news w), E_SetUp (Harness (news w))]" by simp
    show ?thesis
    proof (cases "new_err env (news w)")
      case (Some err)
      with "1.prems" True have "w' = ?w1"
        by (subst (asm) spawn_miners.simps) (auto simp: rpctest_New_def)
      with t1 show ?thesis by simp
    next
      case None
      then have new: "rpctest_New env w = (Inr (Harness (news w)), ?w1)"
        by (simp add: rpctest_New_def)
      show ?thesis
      proof (cases "setup_err env (Harness (news w))")
        case (Some err)
        with "1.prems" True new have "w' = ?w2"
          by (subst (asm) spawn_miners.simps) (auto simp: SetUp_def)
        with t2 show ?thesis by simp
      next
        case None
        then have su: "SetUp env (Harness (news w)) ?w1 = (None, ?w2)"
          by (simp add: SetUp_def)
        from "1.prems" True new su
        have rec: "spawn_miners env (i + 1) minerCount (miners @ [Harness (news w)]) ?w2 = (r, w')"
          by (subst (asm) spawn_miners.simps) simp
        from "1.IH" [OF True new [symmetric] refl su [symmetric] refl rec]
        obtain es where "trace w' = trace ?w2 @ es" "\<forall>e\<in>set es. stage_of e = S_Provision"
          by blast
        with t2 have "trace w' = trace w @ ([E_New (news w), E_SetUp (Harness (news w))] @ es) \<and>
          (\<forall>e\<in>set ([E_New (news w), E_SetUp (Harness (news w))] @ es). stage_of e = S_Provision)"
          by simp
        then show ?thesis by blast
      qed
    qed
  qed
qed

section \<open>The loops over the miners and the futures\<close>

lemma teardown_miners_trace:
  "trace (teardown_miners env ms w) = trace w @ map (\<lambda>m. E_TearDown m (teardown_err env m)) ms"
  by (induction ms arbitrary: w) (simp_all add: TearDown_def)

lemma generate_blocks_eq:
  "generate_blocks ms bc futs w =
     (futs @ map (\<lambda>m. FutureGenerateResult m (word_of_int bc)) ms,
      w\<lparr>trace := trace w @ map (\<lambda>m. E_GenerateAsync m (word_of_int bc)) ms\<rparr>)"
  by (induction ms arbitrary: futs w) (simp_all add: GenerateAsync_def emit_def)

lemma wait_futures_trace:
  "\<exists>k. trace (snd (wait_futures env i futs w)) = trace w @ map E_Receive (take k futs)"
proof (induction futs arbitrary: i w)
  case Nil
  then show ?case by simp
next
  case (Cons f futs)
  show ?case
  proof (cases "receive_res env f")
    case (Inl err)
    then have "trace (snd (wait_futures env i (f # futs) w)) = trace w @ map E_Receive (take 1 (f # futs))"
      by (simp add: Receive_def)
    then show ?thesis by blast
  next
    case (Inr hs)
    from Cons.IH [of "i + 1" "emit (E_Receive f) w"] obtain k where
      "trace (snd (wait_futures env (i + 1) futs (emit (E_Receive f) w))) =
         trace (emit (E_Receive f) w) @ map E_Receive (take k futs)" by blast
    with Inr have "trace (snd (wait_futures env i (f # futs) w)) = trace w @ map E_Receive (take (Suc k) (f # futs))"
      by (simp add: Receive_def)
    then show ?thesis by blast
  qed
qed

lemma wait_futures_all_ok:
  "list_all (\<lambda>f. \<not> isl (receive_res env f)) futs \<Longrightarrow>
   wait_futures env i futs w = (None, w\<lparr>trace := trace w @ map E_Receive futs\<rparr>)"
  by (induction futs arbitrary: i w) (auto simp: Receive_def emit_def split: sum.splits)

lemma wait_futures_first_error:
  "list_all (\<lambda>f. \<not> isl (receive_res env f)) pre \<Longrightarrow> receive_res env f = Inl err \<Longrightarrow>
   wait_futures env i (pre @ f # post) w =
     (Some (Errorf ''failed to wait for blocks to generate on node %d: %s''
              [ArgInt (i + int (length pre)), ArgError err]),
      w\<lparr>trace := trace w @ map E_Receive (pre @ [f])\<rparr>)"
  by (induction pre arbitrary: i w) (auto simp: Receive_def emit_def split: sum.splits)

lemma wait_futures_stage:
  "wait_futures env i futs w = (r, w') \<Longrightarrow>
   \<exists>es. trace w' = trace w @ es \<and> (\<forall>e\<in>set es. stage_of e = S_Collect)"
proof -
  assume a: "wait_futures env i futs w = (r, w')"
  from wait_futures_trace [of env i futs w] a obtain k where
    "trace w' = trace w @ map E_Receive (take k futs)" by auto
  moreover have "\<forall>e\<in>set (map E_Receive (take k futs)). stage_of e = S_Collect" by auto
  ultimately show ?thesis by blast
qed

section \<open>The shape of a run\<close>

lemma render_html_stage:
  "render_html env ms w = (r, w') \<Longrightarrow>
   \<exists>es. trace w' = trace w @ es \<and> (\<forall>e\<in>set es. stage_of e = S_Render)"
  by (auto simp: render_html_def RenderDagsDot_def DotToSvg_def StripSvgXmlDecl_def
      RenderSvgHTML_def split: sum.splits)

lemma open_output_stage:
  "open_output env out w = (r, w') \<Longrightarrow>
   \<exists>es. trace w' = trace w @ es \<and> (\<forall>e\<in>set es. stage_of e = S_Output)"
  by (auto simp: open_output_def Let_def TempFile_def Stat_def OpenFile_def split: sum.splits if_splits)

lemma save_stage:
  "save env b fh w = (r, w') \<Longrightarrow>
   \<exists>es. trace w' = trace w @ es \<and> (\<forall>e\<in>set es. stage_of e = S_Output)"
  by (auto simp: save_def Write_def Close_def split: option.splits)

lemma after_dispatch_stage:
  assumes "(case wait_futures env 0 futures w2 of
        (Some err, w3) \<Rightarrow> (('''', Some err), w3)
      | (None, w3) \<Rightarrow>
     (case render_html env miners w3 of
        (Inl err, w4) \<Rightarrow> (('''', Some err), w4)
      | (Inr h, w4) \<Rightarrow>
     (case open_output env output w4 of
        (Inl err, w5) \<Rightarrow>
          (('''', Some (Errorf ''failed to create output file-handle: %s'' [ArgError err])), w5)
      | (Inr fh, w5) \<Rightarrow>
     (case save env h fh w5 of
        (Some err, w6) \<Rightarrow>
          (('''', Some (Errorf ''failed to save HTML file: %s'' [ArgError err])), w6)
      | (None, w6) \<Rightarrow> ((Name fh, None), w6))))) = (r, w')"
  shows "\<exists>es. trace w' = trace w2 @ es \<and> (\<forall>e\<in>set es. stage_of e \<in> {S_Collect, S_Render, S_Output})"
  using assms
  by (fastforce split: prod.splits option.splits sum.splits
      dest!: wait_futures_stage render_html_stage open_output_stage save_stage)

lemma runNet_body_shape:
  assumes "runNet_body env ms bc out w = (r, w')"
  shows "\<exists>rest. trace w' = trace w @ E_ConnectNodes ms # rest \<and>
           (rest = [] \<or>
            (\<exists>tail. rest = map (\<lambda>m. E_GenerateAsync m (word_of_int bc)) ms @ tail \<and>
               (\<forall>e\<in>set tail. stage_of e \<in> {S_Collect, S_Render, S_Output})))"
proof (cases "connect_err env ms")
  case (Some err)
  with assms have "trace w' = trace w @ [E_ConnectNodes ms]"
    by (auto simp: runNet_body_def ConnectNodes_def)
  then show ?thesis by simp
next
  case None
  obtain futs w2 where g: "generate_blocks ms bc [] (emit (E_ConnectNodes ms) w) = (futs, w2)"
    by force
  then have t2: "trace w2 = trace w @ E_ConnectNodes ms # map (\<lambda>m. E_GenerateAsync m (word_of_int bc)) ms"
    by (auto simp: generate_blocks_eq)
  from assms None g obtain tail where
    "trace w' = trace w2 @ tail" "\<forall>e\<in>set tail. stage_of e \<in> {S_Collect, S_Render, S_Output}"
    unfolding runNet_body_def ConnectNodes_def
    by (auto dest!: after_dispatch_stage)
  with t2 show ?thesis by simp
qed

lemma runNet_body_stage:
  assumes "runNet_body env ms bc out w = (r, w')"
  shows "\<exists>rest. trace w' = trace w @ E_ConnectNodes ms # rest \<and>
           (\<forall>e\<in>set rest. stage_of e \<in> {S_Dispatch, S_Collect, S_Render, S_Output})"
proof -
  from runNet_body_shape [OF assms] obtain rest where
    t: "trace w' = trace w @ E_ConnectNodes ms # rest" and
    c: "rest = [] \<or>
            (\<exists>tail. rest = map (\<lambda>m. E_GenerateAsync m (word_of_int bc)) ms @ tail \<and>
               (\<forall>e\<in>set tail. stage_of e \<in> {S_Collect, S_Render, S_Output}))"
    by blast
  from c have "\<forall>e\<in>set rest. stage_of e \<in> {S_Dispatch, S_Collect, S_Render, S_Output}"
    by auto
  with t show ?thesis by blast
qed

lemma runNet_provisioned:
  assumes "provisioned env (news w) (nat minerCount)"
  shows "\<exists>r w1 w2. spawn_miners env 0 minerCount [] w =
             (Inr (map Harness [news w..<news w + nat minerCount]), w1) \<and>
           trace w1 = trace w @ spawn_events (news w) (nat minerCount) \<and>
           runNet_body env (map Harness [news w..<news w + nat minerCount]) blockCount output w1 = (r, w2) \<and>
           runNet env minerCount blockCount output w =
             (r, teardown_miners env (map Harness [news w..<news w + nat minerCount]) w2)"
proof -
  let ?ms = "map Harness [news w..<news w + nat minerCount]"
  let ?w1 = "w\<lparr>trace := trace w @ spawn_events (news w) (nat minerCount),
        news := news w + nat minerCount\<rparr>"
  from assms have s: "spawn_miners env 0 minerCount [] w = (Inr ?ms, ?w1)"
    using spawn_miners_ok [of env w minerCount 0 "[]"] by simp
  obtain r w2 where b: "runNet_body env ?ms blockCount output ?w1 = (r, w2)" by (metis surj_pair)
  from s b have "runNet env minerCount blockCount output w = (r, teardown_miners env ?ms w2)"
    by (simp add: runNet_def)
  with s b show ?thesis by simp
qed

lemma split_after_block:
  assumes "A @ G @ R = pre @ x # post" and "x \<notin> set A" and "x \<notin> set G"
  shows "\<exists>R'. pre = A @ G @ R' \<and> R = R' @ x # post"
  using assms
  by (auto simp: append_eq_append_conv2 Cons_eq_append_conv append_eq_Cons_conv)

section \<open>Teardown\<close>

text \<open>
  C3. Once provisioning has succeeded, whatever the later stages answer, the run ends with
  one \<open>TearDown\<close> call per provisioned handle, in the order of the handles, and makes no
  other \<open>TearDown\<close> call; the answer of one \<open>TearDown\<close> (kept in the event) does not
  change the calls that follow.
\<close>

theorem teardown_every_exit:
  assumes "provisioned env (news w) (nat minerCount)"
  shows "\<exists>es. trace (snd (runNet env minerCount blockCount output w)) =
             trace w @ es @
             map (\<lambda>m. E_TearDown m (teardown_err env m))
               (map Harness [news w..<news w + nat minerCount]) \<and>
           (\<forall>e\<in>set es. stage_of e \<noteq> S_Teardown)"
proof -
  let ?ms = "map Harness [news w..<news w + nat minerCount]"
  from runNet_provisioned [OF assms, of blockCount "output"] obtain r w1 w2 where
    t1: "trace w1 = trace w @ spawn_events (news w) (nat minerCount)" and
    b: "runNet_body env ?ms blockCount output w1 = (r, w2)" and
    rn: "runNet env minerCount blockCount output w = (r, teardown_miners env ?ms w2)"
    by blast
  from runNet_body_stage [OF b] obtain rest where
    t2: "trace w2 = trace w1 @ E_ConnectNodes ?ms # rest" and
    st: "\<forall>e\<in>set rest. stage_of e \<in> {S_Dispatch, S_Collect, S_Render, S_Output}"
    by blast
  let ?es = "spawn_events (news w) (nat minerCount) @ E_ConnectNodes ?ms # rest"
  from rn t1 t2 have "trace (snd (runNet env minerCount blockCount output w)) =
      trace w @ ?es @ map (\<lambda>m. E_TearDown m (teardown_err env m)) ?ms"
    by (simp add: teardown_miners_trace)
  moreover from st spawn_events_stage [of "news w" "nat minerCount"]
  have "\<forall>e\<in>set ?es. stage_of e \<noteq> S_Teardown" by auto
  ultimately show ?thesis by blast
qed

theorem teardown_every_exit_witness:
  "provisioned env_teardown0_fails (news world0) (nat 2) \<and>
   (\<exists>es. trace (snd (runNet env_teardown0_fails 2 50 [] world0)) =
      trace world0 @ es @
      [E_TearDown (Harness 0) (Some (Error ''boom'')), E_TearDown (Harness 1) None] \<and>
      (\<forall>e\<in>set es. stage_of e \<noteq> S_Teardown))"
proof -
  have h: "provisioned env_teardown0_fails (news world0) (nat 2)"
    by (simp add: provisioned_def env_teardown0_fails_def env_ok_def)
  have m: "map Harness [news world0..<news world0 + nat 2] = [Harness 0, Harness 1]"
    by (simp add: world0_def upt_rec)
  have t: "map (\<lambda>m. E_TearDown m (teardown_err env_teardown0_fails m)) [Harness 0, Harness 1] =
      [E_TearDown (Harness 0) (Some (Error ''boom'')), E_TearDown (Harness 1) None]"
    by (simp add: env_teardown0_fails_def env_ok_def)
  from teardown_every_exit [OF h, of 50 "[]"] h show ?thesis
    by (simp only: m t simp_thms)
qed

section \<open>Dispatch and fan-in\<close>

text \<open>
  C4. Whenever a run calls \<open>Receive\<close>, the calls it made before are all the
  \<open>GenerateAsync\<close> calls, one per handle in the order of the handles; and the dispatch
  loop returns one future per handle, index-aligned.
\<close>

theorem dispatch_before_fan_in:
  assumes "runNet env minerCount blockCount output w = (r, w')"
    and "trace w' = trace w @ pre @ E_Receive fut # post"
  shows "filter (\<lambda>e. stage_of e = S_Dispatch) pre =
           map (\<lambda>m. E_GenerateAsync m (word_of_int blockCount))
             (map Harness [news w..<news w + nat minerCount]) \<and>
         fst (generate_blocks miners blockCount [] w0) =
           map (\<lambda>m. FutureGenerateResult m (word_of_int blockCount)) miners"
proof
  let ?ms = "map Harness [news w..<news w + nat minerCount]"
  let ?G = "map (\<lambda>m. E_GenerateAsync m (word_of_int blockCount)) ?ms"
  let ?T = "map (\<lambda>m. E_TearDown m (teardown_err env m)) ?ms"
  obtain s w1 where sp: "spawn_miners env 0 minerCount [] w = (s, w1)" by (metis surj_pair)
  from spawn_miners_stage [OF sp] obtain es where
    t1: "trace w1 = trace w @ es" and st1: "\<forall>e\<in>set es. stage_of e = S_Provision" by blast
  show "filter (\<lambda>e. stage_of e = S_Dispatch) pre = ?G"
  proof (cases s)
    case (Inl err)
    with sp assms(1) have "w' = w1" by (simp add: runNet_def)
    with t1 assms(2) have "es = pre @ E_Receive fut # post" by simp
    with st1 have "stage_of (E_Receive fut) = S_Provision" by simp
    then show ?thesis by simp
  next
    case (Inr ms)
    with sp have "provisioned env (news w) (nat minerCount)"
      using spawn_miners_Inr_provisioned [of env 0 minerCount "[]" w ms w1] by simp
    from runNet_provisioned [OF this, of blockCount "output"] sp assms(1) obtain w2 where
      b: "runNet_body env ?ms blockCount output w1 = (r, w2)" and
      w': "w' = teardown_miners env ?ms w2"
      by auto
    from runNet_body_shape [OF b] obtain rest where
      t2: "trace w2 = trace w1 @ E_ConnectNodes ?ms # rest" and
      c: "rest = [] \<or> (\<exists>tail. rest = ?G @ tail \<and>
               (\<forall>e\<in>set tail. stage_of e \<in> {S_Collect, S_Render, S_Output}))"
      by blast
    from w' t1 t2 assms(2) have eq: "(es @ [E_ConnectNodes ?ms]) @ rest @ ?T = pre @ E_Receive fut # post"
      by (simp add: teardown_miners_trace)
    from c show ?thesis
    proof
      assume "rest = []"
      with eq have "E_Receive fut \<in> set (es @ [E_ConnectNodes ?ms] @ ?T)"
        by (metis append.assoc append_Nil in_set_conv_decomp)
      with st1 show ?thesis by auto
    next
      assume "\<exists>tail. rest = ?G @ tail \<and>
               (\<forall>e\<in>set tail. stage_of e \<in> {S_Collect, S_Render, S_Output})"
      then obtain tail where r: "rest = ?G @ tail" and
        stt: "\<forall>e\<in>set tail. stage_of e \<in> {S_Collect, S_Render, S_Output}" by blast
      from eq r have eq': "(es @ [E_ConnectNodes ?ms]) @ ?G @ (tail @ ?T) = pre @ E_Receive fut # post"
        by simp
      from st1 have n1: "E_Receive fut \<notin> set (es @ [E_ConnectNodes ?ms])" by auto
      have n2: "E_Receive fut \<notin> set ?G" by auto
      from split_after_block [OF eq' n1 n2] obtain R' where
        p: "pre = (es @ [E_ConnectNodes ?ms]) @ ?G @ R'" and R: "tail @ ?T = R' @ E_Receive fut # post"
        by blast
      have "\<forall>e\<in>set (tail @ ?T). stage_of e \<noteq> S_Dispatch"
        using stt by auto
      then have "\<forall>e\<in>set (R' @ E_Receive fut # post). stage_of e \<noteq> S_Dispatch"
        by (simp only: R)
      then have f3: "filter (\<lambda>e. stage_of e = S_Dispatch) R' = []"
        by (simp add: filter_empty_conv)
      from st1 have f1: "filter (\<lambda>e. stage_of e = S_Dispatch) (es @ [E_ConnectNodes ?ms]) = []"
        by (auto simp: filter_empty_conv)
      have f2: "filter (\<lambda>e. stage_of e = S_Dispatch) ?G = ?G"
        by (simp add: filter_id_conv)
      from p f1 f2 f3 show ?thesis by (simp only: filter_append append_Nil append_Nil2)
    qed
  qed
next
  show "fst (generate_blocks miners blockCount [] w0) =
           map (\<lambda>m. FutureGenerateResult m (word_of_int blockCount)) miners"
    by (simp add: generate_blocks_eq)
qed

theorem dispatch_before_fan_in_witness:
  "filter (\<lambda>e. stage_of e = S_Dispatch)
     [E_New 0, E_SetUp (Harness 0), E_New 1, E_SetUp (Harness 1),
      E_ConnectNodes [Harness 0, Harness 1],
      E_GenerateAsync (Harness 0) 50, E_GenerateAsync (Harness 1) 50] =
   [E_GenerateAsync (Harness 0) 50, E_GenerateAsync (Harness 1) 50] \<and>
   fst (generate_blocks [Harness 0, Harness 1] 50 [] world0) =
   [FutureGenerateResult (Harness 0) 50, FutureGenerateResult (Harness 1) 50]"
proof -
  have m: "map Harness [news world0..<news world0 + nat 2] = [Harness 0, Harness 1]"
    by (simp add: world0_def upt_rec)
  have t: "trace (snd (runNet env_ok 2 50 [] world0)) = trace world0 @
     [E_New 0, E_SetUp (Harness 0), E_New 1, E_SetUp (Harness 1),
      E_ConnectNodes [Harness 0, Harness 1],
      E_GenerateAsync (Harness 0) 50, E_GenerateAsync (Harness 1) 50] @
     E_Receive (FutureGenerateResult (Harness 0) 50) #
     [E_Receive (FutureGenerateResult (Harness 1) 50),
      E_RenderDagsDot [Harness 0, Harness 1], E_DotToSvg [1],
      E_StripSvgXmlDecl [2], E_RenderSvgHTML [3] ''dag'',
      E_TempFile [] ''dag_*.html'',
      E_Write (File ''/dag_1.html'') [4], E_Close (File ''/dag_1.html''),
      E_TearDown (Harness 0) None, E_TearDown (Harness 1) None]"
    by (simp add: run_ok_2 world0_trace)
  from dispatch_before_fan_in [OF surjective_pairing t, of "[Harness 0, Harness 1]" world0]
  show ?thesis by (simp add: m)
qed

section \<open>A failing generation\<close>

text \<open>
  C5. When all \<open>minerCount\<close> nodes are provisioned and connected, and \<open>Receive\<close> fails
  on the future of node \<open>k\<close> and of no other node, \<open>runNet\<close> returns the error that
  cites \<open>k\<close> and wraps that failure, and the calls it has made by then end with one
  \<open>TearDown\<close> per provisioned handle.
\<close>

theorem generation_failure_one_node:
  fixes k :: nat
  assumes "provisioned env (news w) (nat minerCount)"
    and "connect_err env (map Harness [news w..<news w + nat minerCount]) = None"
    and "k < nat minerCount"
    and "receive_res env (FutureGenerateResult (Harness (news w + k)) (word_of_int blockCount)) =
           Inl err"
    and "\<forall>j<nat minerCount. j \<noteq> k \<longrightarrow>
           \<not> isl (receive_res env
                   (FutureGenerateResult (Harness (news w + j)) (word_of_int blockCount)))"
  shows "fst (runNet env minerCount blockCount output w) =
           ('''', Some (Errorf ''failed to wait for blocks to generate on node %d: %s''
                          [ArgInt (int k), ArgError err])) \<and>
         trace (snd (runNet env minerCount blockCount output w)) =
           trace w @ spawn_events (news w) (nat minerCount) @
           E_ConnectNodes (map Harness [news w..<news w + nat minerCount]) #
           map (\<lambda>m. E_GenerateAsync m (word_of_int blockCount))
             (map Harness [news w..<news w + nat minerCount]) @
           map E_Receive
             (take (Suc k)
                (map (\<lambda>m. FutureGenerateResult m (word_of_int blockCount))
                   (map Harness [news w..<news w + nat minerCount]))) @
           map (\<lambda>m. E_TearDown m (teardown_err env m))
             (map Harness [news w..<news w + nat minerCount])"
proof -
  let ?ms = "map Harness [news w..<news w + nat minerCount]"
  let ?F = "\<lambda>m. FutureGenerateResult m (word_of_int blockCount)"
  let ?futs = "map ?F ?ms"
  let ?w1 = "w\<lparr>trace := trace w @ spawn_events (news w) (nat minerCount),
        news := news w + nat minerCount\<rparr>"
  let ?w3 = "?w1\<lparr>trace := trace ?w1 @ E_ConnectNodes ?ms # map (\<lambda>m. E_GenerateAsync m (word_of_int blockCount)) ?ms\<rparr>"
  let ?e = "Errorf ''failed to wait for blocks to generate on node %d: %s''
              [ArgInt (int k), ArgError err]"
  have len: "length ?futs = nat minerCount" by simp
  from assms(3) have nth: "\<And>j. j < nat minerCount \<Longrightarrow> ?futs ! j = ?F (Harness (news w + j))"
    by simp
  from assms(3) len have dec: "?futs = take k ?futs @ ?futs ! k # drop (Suc k) ?futs"
    by (metis id_take_nth_drop)
  have pre: "list_all (\<lambda>f. \<not> isl (receive_res env f)) (take k ?futs)"
  proof -
    have "\<forall>j<length (take k ?futs). \<not> isl (receive_res env (take k ?futs ! j))"
    proof (intro allI impI)
      fix j assume "j < length (take k ?futs)"
      with assms(3) have j: "j < k" "j < nat minerCount" by simp_all
      then have "take k ?futs ! j = ?F (Harness (news w + j))" by simp
      with assms(5) j show "\<not> isl (receive_res env (take k ?futs ! j))" by simp
    qed
    then show ?thesis by (simp add: list_all_length)
  qed
  from assms(3,4) nth have f: "receive_res env (?futs ! k) = Inl err" by simp
  have tk: "take k ?futs @ [?futs ! k] = take (Suc k) ?futs"
    using assms(3) len by (metis take_Suc_conv_app_nth)
  have lk: "length (take k ?futs) = k" using assms(3) by simp
  have "wait_futures env 0 (take k ?futs @ ?futs ! k # drop (Suc k) ?futs) ?w3 =
      (Some ?e, ?w3\<lparr>trace := trace ?w3 @ map E_Receive (take (Suc k) ?futs)\<rparr>)"
    using wait_futures_first_error [OF pre f, of 0 "drop (Suc k) ?futs" ?w3]
    by (simp only: tk lk add_0)
  with dec have wt: "wait_futures env 0 ?futs ?w3 =
      (Some ?e, ?w3\<lparr>trace := trace ?w3 @ map E_Receive (take (Suc k) ?futs)\<rparr>)"
    by simp
  from assms(1) have s: "spawn_miners env 0 minerCount [] w = (Inr ?ms, ?w1)"
    using spawn_miners_ok [of env w minerCount 0 "[]"] by simp
  have b: "runNet_body env ?ms blockCount output ?w1 =
      (('''', Some ?e), ?w3\<lparr>trace := trace ?w3 @ map E_Receive (take (Suc k) ?futs)\<rparr>)"
    unfolding runNet_body_def ConnectNodes_def
    by (simp add: assms(2) generate_blocks_eq emit_def wt [simplified])
  show ?thesis
    by (simp add: runNet_def s b teardown_miners_trace)
qed

theorem generation_failure_one_node_witness:
  "fst (runNet env_receive1_fails 3 50 [] world0) =
     ('''', Some (Errorf ''failed to wait for blocks to generate on node %d: %s''
                    [ArgInt 1, ArgError (Error ''boom'')])) \<and>
   trace (snd (runNet env_receive1_fails 3 50 [] world0)) =
     [E_New 0, E_SetUp (Harness 0), E_New 1, E_SetUp (Harness 1), E_New 2, E_SetUp (Harness 2),
      E_ConnectNodes [Harness 0, Harness 1, Harness 2],
      E_GenerateAsync (Harness 0) 50, E_GenerateAsync (Harness 1) 50,
      E_GenerateAsync (Harness 2) 50,
      E_Receive (FutureGenerateResult (Harness 0) 50),
      E_Receive (FutureGenerateResult (Harness 1) 50),
      E_TearDown (Harness 0) None, E_TearDown (Harness 1) None, E_TearDown (Harness 2) None]"
proof -
  have m: "map Harness [news world0..<news world0 + nat 3] = [Harness 0, Harness 1, Harness 2]"
    by (simp add: world0_def upt_rec)
  have se: "spawn_events (news world0) (nat 3) =
      [E_New 0, E_SetUp (Harness 0), E_New 1, E_SetUp (Harness 1), E_New 2, E_SetUp (Harness 2)]"
    by (simp add: spawn_events_def world0_def upt_rec)
  have h1: "provisioned env_receive1_fails (news world0) (nat 3)"
    by (simp add: provisioned_def env_receive1_fails_def env_ok_def list_all_iff)
  have h2: "connect_err env_receive1_fails (map Harness [news world0..<news world0 + nat 3]) = None"
    by (simp add: env_receive1_fails_def env_ok_def)
  have h3: "(1::nat) < nat 3" by simp
  have h4: "receive_res env_receive1_fails
      (FutureGenerateResult (Harness (news world0 + 1)) (word_of_int 50)) = Inl (Error ''boom'')"
    by (simp add: env_receive1_fails_def env_ok_def world0_def)
  have h5: "\<forall>j<nat 3. j \<noteq> 1 \<longrightarrow>
           \<not> isl (receive_res env_receive1_fails
                   (FutureGenerateResult (Harness (news world0 + j)) (word_of_int 50)))"
    by (simp add: env_receive1_fails_def env_ok_def world0_def)
  from generation_failure_one_node [OF h1 h2 h3 h4 h5, of "[]", unfolded m se] show ?thesis
    by (simp add: world0_trace env_receive1_fails_def env_ok_def)
qed

section \<open>The fan-in loop\<close>

text \<open>
  C2 as stated does not hold. With two nodes and \<open>Receive\<close> failing on the future of
  node 0, the run never calls \<open>Receive\<close> on the future of node 1: the loop of lines 59 to
  64 returns at the first error.
\<close>

theorem fan_in_short_circuits:
  "runNet env_receive0_fails 2 50 [] world0 =
     (('''', Some (Errorf ''failed to wait for blocks to generate on node %d: %s''
                    [ArgInt 0, ArgError (Error ''boom'')])),
      \<lparr>trace = [E_New 0, E_SetUp (Harness 0), E_New 1, E_SetUp (Harness 1),
                E_ConnectNodes [Harness 0, Harness 1],
                E_GenerateAsync (Harness 0) 50, E_GenerateAsync (Harness 1) 50,
                E_Receive (FutureGenerateResult (Harness 0) 50),
                E_TearDown (Harness 0) None, E_TearDown (Harness 1) None],
       news = 2\<rparr>) \<and>
   E_Receive (FutureGenerateResult (Harness 1) 50)
     \<notin> set (trace (snd (runNet env_receive0_fails 2 50 [] world0)))"
  by (simp add: run_defs prim_defs env_receive0_fails_def env_ok_def world0_def)

text \<open>
  C2, amended. The fan-in loop receives the futures in index order and stops at the first
  failure. When no future fails, every future is received once, in order, and there is no
  error. When the first failing future is at index \<open>length pre\<close>, the futures up to it
  are received once each, the later ones are not received, and the error cites that index
  and wraps the failure. The loop keeps no result of a future.
\<close>

theorem fan_in_stops_at_first_failure:
  "(list_all (\<lambda>f. \<not> isl (receive_res env f)) futures \<longrightarrow>
      wait_futures env 0 futures w = (None, w\<lparr>trace := trace w @ map E_Receive futures\<rparr>)) \<and>
   (list_all (\<lambda>f. \<not> isl (receive_res env f)) pre \<and> receive_res env fut = Inl err \<longrightarrow>
      wait_futures env 0 (pre @ fut # post) w =
        (Some (Errorf ''failed to wait for blocks to generate on node %d: %s''
                 [ArgInt (int (length pre)), ArgError err]),
         w\<lparr>trace := trace w @ map E_Receive (pre @ [fut])\<rparr>))"
  using wait_futures_all_ok [of env futures 0 w] wait_futures_first_error [of env pre fut err 0 post w]
  by simp

theorem fan_in_stops_at_first_failure_witness:
  "wait_futures env_receive1_fails 0
     [FutureGenerateResult (Harness 0) 50, FutureGenerateResult (Harness 2) 50] world0 =
     (None, \<lparr>trace = [E_Receive (FutureGenerateResult (Harness 0) 50),
                     E_Receive (FutureGenerateResult (Harness 2) 50)], news = 0\<rparr>) \<and>
   wait_futures env_receive1_fails 0
     [FutureGenerateResult (Harness 0) 50, FutureGenerateResult (Harness 1) 50,
      FutureGenerateResult (Harness 2) 50] world0 =
     (Some (Errorf ''failed to wait for blocks to generate on node %d: %s''
              [ArgInt 1, ArgError (Error ''boom'')]),
      \<lparr>trace = [E_Receive (FutureGenerateResult (Harness 0) 50),
                E_Receive (FutureGenerateResult (Harness 1) 50)], news = 0\<rparr>)"
proof -
  have a: "list_all (\<lambda>f. \<not> isl (receive_res env_receive1_fails f))
      [FutureGenerateResult (Harness 0) 50, FutureGenerateResult (Harness 2) 50]"
    by (simp add: env_receive1_fails_def env_ok_def)
  have b: "list_all (\<lambda>f. \<not> isl (receive_res env_receive1_fails f))
      [FutureGenerateResult (Harness 0) 50]"
    by (simp add: env_receive1_fails_def env_ok_def)
  have c: "receive_res env_receive1_fails (FutureGenerateResult (Harness 1) 50) =
      Inl (Error ''boom'')"
    by (simp add: env_receive1_fails_def env_ok_def)
  from fan_in_stops_at_first_failure
    [of env_receive1_fails
        "[FutureGenerateResult (Harness 0) 50, FutureGenerateResult (Harness 2) 50]" world0
        "[FutureGenerateResult (Harness 0) 50]" "FutureGenerateResult (Harness 1) 50"
        "Error ''boom''" "[FutureGenerateResult (Harness 2) 50]"] a b c
  show ?thesis by (simp add: world0_def)
qed

section \<open>The output destination\<close>

lemma run_ok_dir:
  "runNet env_ok 1 50 ''out'' world0 =
     ((''out/dag_1.html'', None),
      \<lparr>trace = [E_New 0, E_SetUp (Harness 0), E_ConnectNodes [Harness 0],
                E_GenerateAsync (Harness 0) 50, E_Receive (FutureGenerateResult (Harness 0) 50),
                E_RenderDagsDot [Harness 0], E_DotToSvg [1],
                E_StripSvgXmlDecl [2], E_RenderSvgHTML [3] ''dag'',
                E_Stat ''out'', E_TempFile ''out'' ''dag_*.html'',
                E_Write (File ''out/dag_1.html'') [4], E_Close (File ''out/dag_1.html''),
                E_TearDown (Harness 0) None],
       news = 1\<rparr>)"
  by (simp add: run_defs prim_defs env_ok_def world0_def)

lemma run_ok_file:
  "runNet env_ok 1 50 ''x.html'' world0 =
     ((''x.html'', None),
      \<lparr>trace = [E_New 0, E_SetUp (Harness 0), E_ConnectNodes [Harness 0],
                E_GenerateAsync (Harness 0) 50, E_Receive (FutureGenerateResult (Harness 0) 50),
                E_RenderDagsDot [Harness 0], E_DotToSvg [1],
                E_StripSvgXmlDecl [2], E_RenderSvgHTML [3] ''dag'',
                E_Stat ''x.html'', E_OpenFile ''x.html'' {O_RDWR, O_CREATE, O_TRUNC} 420,
                E_Write (File ''x.html'') [4], E_Close (File ''x.html''),
                E_TearDown (Harness 0) None],
       news = 1\<rparr>)"
  by (simp add: run_defs prim_defs env_ok_def world0_def)

lemma open_output_empty:
  "open_output env [] w =
     (map_sum id File (temp_file env [] ''dag_*.html''),
      w\<lparr>trace := trace w @ [E_TempFile [] ''dag_*.html'']\<rparr>)"
  by (simp add: open_output_def TempFile_def emit_def map_sum_def split: sum.splits)

lemma open_output_dir:
  "output \<noteq> [] \<Longrightarrow> stat env output = Inr (FileInfo True) \<Longrightarrow>
   open_output env output w =
     (map_sum id File (temp_file env output ''dag_*.html''),
      w\<lparr>trace := trace w @ [E_Stat output, E_TempFile output ''dag_*.html'']\<rparr>)"
  by (simp add: open_output_def Stat_def TempFile_def emit_def map_sum_def split: sum.splits)

lemma open_output_file:
  "output \<noteq> [] \<Longrightarrow> stat env output \<noteq> Inr (FileInfo True) \<Longrightarrow>
   open_output env output w =
     ((case open_file_err env output of Some err \<Rightarrow> Inl err | None \<Rightarrow> Inr (File output)),
      w\<lparr>trace := trace w @ [E_Stat output, E_OpenFile output {O_RDWR, O_CREATE, O_TRUNC} 420]\<rparr>)"
  by (cases "stat env output"; cases "projr (stat env output)")
     (auto simp: open_output_def Stat_def OpenFile_def emit_def split: sum.splits)

lemma runNet_success_file:
  assumes "runNet env minerCount blockCount output w = ((name, None), w')"
  shows "\<exists>wa wb. open_output env output wa = (Inr (File name), wb)"
proof -
  from assms obtain ms w1 w2 where
    b: "runNet_body env ms blockCount output w1 = ((name, None), w2)"
    by (auto simp: runNet_def split: prod.splits sum.splits)
  then show ?thesis
    unfolding runNet_body_def
    by (auto split: prod.splits sum.splits option.splits) blast
qed

text \<open>
  C6. An empty \<open>output\<close> makes one call \<open>TempFile("", "dag_*.html")\<close> (the system
  temporary directory); an \<open>output\<close> that \<open>os.Stat\<close> reports as a directory makes one
  call \<open>TempFile(output, "dag_*.html")\<close>; any other \<open>output\<close> is opened under its own
  name with \<open>O_RDWR|O_CREATE|O_TRUNC\<close> and mode 0644. A successful \<open>runNet\<close> returns the
  name of the file so opened.
\<close>

theorem output_destination:
  "(output = [] \<longrightarrow>
      open_output env output w =
        (map_sum id File (temp_file env [] ''dag_*.html''),
         w\<lparr>trace := trace w @ [E_TempFile [] ''dag_*.html'']\<rparr>)) \<and>
   (output \<noteq> [] \<and> stat env output = Inr (FileInfo True) \<longrightarrow>
      open_output env output w =
        (map_sum id File (temp_file env output ''dag_*.html''),
         w\<lparr>trace := trace w @ [E_Stat output, E_TempFile output ''dag_*.html'']\<rparr>)) \<and>
   (output \<noteq> [] \<and> stat env output \<noteq> Inr (FileInfo True) \<longrightarrow>
      open_output env output w =
        ((case open_file_err env output of Some err \<Rightarrow> Inl err | None \<Rightarrow> Inr (File output)),
         w\<lparr>trace := trace w @
            [E_Stat output, E_OpenFile output {O_RDWR, O_CREATE, O_TRUNC} 420]\<rparr>)) \<and>
   (runNet env minerCount blockCount output w0 = ((name, None), w') \<longrightarrow>
      (if output = [] then temp_file env [] ''dag_*.html'' = Inr name
       else if stat env output = Inr (FileInfo True)
         then temp_file env output ''dag_*.html'' = Inr name
       else name = output \<and> open_file_err env output = None))"
proof (intro conjI impI)
  assume "output = []"
  then show "open_output env output w =
        (map_sum id File (temp_file env [] ''dag_*.html''),
         w\<lparr>trace := trace w @ [E_TempFile [] ''dag_*.html'']\<rparr>)"
    by (simp add: open_output_empty)
next
  assume "output \<noteq> [] \<and> stat env output = Inr (FileInfo True)"
  then show "open_output env output w =
        (map_sum id File (temp_file env output ''dag_*.html''),
         w\<lparr>trace := trace w @ [E_Stat output, E_TempFile output ''dag_*.html'']\<rparr>)"
    by (simp add: open_output_dir)
next
  assume "output \<noteq> [] \<and> stat env output \<noteq> Inr (FileInfo True)"
  then show "open_output env output w =
        ((case open_file_err env output of Some err \<Rightarrow> Inl err | None \<Rightarrow> Inr (File output)),
         w\<lparr>trace := trace w @
            [E_Stat output, E_OpenFile output {O_RDWR, O_CREATE, O_TRUNC} 420]\<rparr>)"
    by (simp add: open_output_file)
next
  assume "runNet env minerCount blockCount output w0 = ((name, None), w')"
  from runNet_success_file [OF this] obtain wa wb where
    o: "open_output env output wa = (Inr (File name), wb)" by blast
  show "if output = [] then temp_file env [] ''dag_*.html'' = Inr name
       else if stat env output = Inr (FileInfo True)
         then temp_file env output ''dag_*.html'' = Inr name
       else name = output \<and> open_file_err env output = None"
  proof (cases "output = []")
    case True
    with o show ?thesis
      by (auto simp: open_output_empty map_sum_def split: sum.splits)
  next
    case False
    show ?thesis
    proof (cases "stat env output = Inr (FileInfo True)")
      case True
      with False o show ?thesis
        by (auto simp: open_output_dir map_sum_def split: sum.splits)
    next
      case f: False
      with False o show ?thesis
        by (auto simp: open_output_file split: option.splits)
    qed
  qed
qed

theorem output_destination_witness:
  "open_output env_ok [] world0 =
     (Inr (File ''/dag_1.html''), \<lparr>trace = [E_TempFile [] ''dag_*.html''], news = 0\<rparr>) \<and>
   open_output env_ok ''out'' world0 =
     (Inr (File ''out/dag_1.html''),
      \<lparr>trace = [E_Stat ''out'', E_TempFile ''out'' ''dag_*.html''], news = 0\<rparr>) \<and>
   temp_file env_ok ''out'' ''dag_*.html'' = Inr (fst (fst (runNet env_ok 1 50 ''out'' world0))) \<and>
   open_output env_ok ''x.html'' world0 =
     (Inr (File ''x.html''),
      \<lparr>trace = [E_Stat ''x.html'', E_OpenFile ''x.html'' {O_RDWR, O_CREATE, O_TRUNC} 420],
       news = 0\<rparr>) \<and>
   fst (fst (runNet env_ok 1 50 ''x.html'' world0)) = ''x.html''"
proof -
  have s1: "stat env_ok ''out'' = Inr (FileInfo True)" by (simp add: env_ok_def)
  have s2: "stat env_ok ''x.html'' \<noteq> Inr (FileInfo True)" by (simp add: env_ok_def)
  note a = output_destination [where env = env_ok and ?output = "[]" and w = world0]
  note b = output_destination [where env = env_ok and ?output = "''out''" and w = world0
      and ?w0.0 = world0 and minerCount = 1 and blockCount = 50]
  note c = output_destination [where env = env_ok and ?output = "''x.html''" and w = world0
      and ?w0.0 = world0 and minerCount = 1 and blockCount = 50]
  from a have 1: "open_output env_ok [] world0 =
     (Inr (File ''/dag_1.html''), \<lparr>trace = [E_TempFile [] ''dag_*.html''], news = 0\<rparr>)"
    by (simp add: env_ok_def world0_def)
  from b s1 have 2: "open_output env_ok ''out'' world0 =
     (Inr (File ''out/dag_1.html''),
      \<lparr>trace = [E_Stat ''out'', E_TempFile ''out'' ''dag_*.html''], news = 0\<rparr>)"
    by (simp add: env_ok_def world0_def)
  from b s1 run_ok_dir
  have 3: "temp_file env_ok ''out'' ''dag_*.html'' = Inr (fst (fst (runNet env_ok 1 50 ''out'' world0)))"
    by simp
  from c s2 have 4: "open_output env_ok ''x.html'' world0 =
     (Inr (File ''x.html''),
      \<lparr>trace = [E_Stat ''x.html'', E_OpenFile ''x.html'' {O_RDWR, O_CREATE, O_TRUNC} 420],
       news = 0\<rparr>)"
    by (simp add: env_ok_def world0_def)
  from c s2 run_ok_file
  have 5: "fst (fst (runNet env_ok 1 50 ''x.html'' world0)) = ''x.html''"
    by simp
  from 1 2 3 4 5 show ?thesis by blast
qed

section \<open>Rendering\<close>

lemma render_html_fst:
  "fst (render_html env ms w) =
     (case render_dags_dot env ms of
        Inl err \<Rightarrow> Inl (Errorf ''failed to render dag in graphviz DOT format: %s'' [ArgError err])
      | Inr dot \<Rightarrow>
     (case dot_to_svg env dot of
        Inl err \<Rightarrow> Inl (Errorf ''failed to convert DOT file to SVG: %s'' [ArgError err])
      | Inr svg \<Rightarrow>
     (case strip_svg_xml_decl env svg of
        Inl err \<Rightarrow>
          Inl (Errorf ''failed to strip xml declaration from SVG image: %s'' [ArgError err])
      | Inr svgEmbed \<Rightarrow>
     (case render_svg_html env svgEmbed ''dag'' of
        Inl err \<Rightarrow> Inl (Errorf ''failed to render SVG image as HTML: %s'' [ArgError err])
      | Inr h \<Rightarrow> Inr h))))"
  by (simp add: render_html_def RenderDagsDot_def DotToSvg_def StripSvgXmlDecl_def
      RenderSvgHTML_def split: sum.splits)

lemma render_html_fst_indep: "fst (render_html env ms w) = fst (render_html env ms wa)"
  by (simp only: render_html_fst)

lemma runNet_body_render_fails:
  assumes "runNet_body env ms bc out w = (r, w')"
    and "fst (render_html env ms wa) = Inl err"
  shows "fst r = [] \<and> snd r \<noteq> None \<and>
         (\<exists>es. trace w' = trace w @ es \<and> (\<forall>e\<in>set es. stage_of e \<noteq> S_Output))"
proof -
  have r: "\<And>w3 h w4. render_html env ms w3 \<noteq> (Inr h, w4)"
    using assms(2) render_html_fst_indep [of env ms wa] by (metis fst_conv sum.distinct(1))
  show ?thesis
  proof (cases "connect_err env ms")
    case (Some e)
    with assms(1) have "r = ([], Some (Errorf ''unable to connect nodes: %s'' [ArgError e]))"
      and "trace w' = trace w @ [E_ConnectNodes ms]"
      by (auto simp: runNet_body_def ConnectNodes_def)
    then show ?thesis by simp
  next
    case None
    let ?w2 = "w\<lparr>trace := trace w @ E_ConnectNodes ms #
                 map (\<lambda>m. E_GenerateAsync m (word_of_int bc)) ms\<rparr>"
    let ?futs = "map (\<lambda>m. FutureGenerateResult m (word_of_int bc)) ms"
    obtain r3 w3 where wt: "wait_futures env 0 ?futs ?w2 = (r3, w3)" by (metis surj_pair)
    from wait_futures_stage [OF wt] obtain es3 where
      t3: "trace w3 = trace ?w2 @ es3" and s3: "\<forall>e\<in>set es3. stage_of e = S_Collect" by blast
    obtain r4 w4 where rn: "render_html env ms w3 = (r4, w4)" by (metis surj_pair)
    from render_html_stage [OF rn] obtain es4 where
      t4: "trace w4 = trace w3 @ es4" and s4: "\<forall>e\<in>set es4. stage_of e = S_Render" by blast
    from rn r obtain e4 where r4: "r4 = Inl e4" by (cases r4) auto
    from assms(1) None wt rn r4 have "fst r = [] \<and> snd r \<noteq> None \<and> (w' = w3 \<or> w' = w4)"
      unfolding runNet_body_def ConnectNodes_def
      by (auto simp: generate_blocks_eq emit_def split: option.splits)
    moreover have "trace w3 = trace w @ (E_ConnectNodes ms #
                 map (\<lambda>m. E_GenerateAsync m (word_of_int bc)) ms @ es3)"
      using t3 by simp
    moreover have "trace w4 = trace w @ (E_ConnectNodes ms #
                 map (\<lambda>m. E_GenerateAsync m (word_of_int bc)) ms @ es3 @ es4)"
      using t3 t4 by simp
    moreover have "\<forall>e\<in>set (E_ConnectNodes ms #
                 map (\<lambda>m. E_GenerateAsync m (word_of_int bc)) ms @ es3). stage_of e \<noteq> S_Output"
      using s3 by auto
    moreover have "\<forall>e\<in>set (E_ConnectNodes ms #
                 map (\<lambda>m. E_GenerateAsync m (word_of_int bc)) ms @ es3 @ es4). stage_of e \<noteq> S_Output"
      using s3 s4 by auto
    ultimately show ?thesis by metis
  qed
qed

lemma runNet_body_render_error:
  assumes "connect_err env ms = None"
    and "list_all (\<lambda>f. \<not> isl (receive_res env f))
           (map (\<lambda>m. FutureGenerateResult m (word_of_int bc)) ms)"
    and "fst (render_html env ms wa) = Inl err"
  shows "fst (runNet_body env ms bc out w) = ([], Some err)"
proof -
  let ?w3 = "w\<lparr>trace := trace w @ E_ConnectNodes ms #
               map (\<lambda>m. E_GenerateAsync m (word_of_int bc)) ms @
               map E_Receive (map (\<lambda>m. FutureGenerateResult m (word_of_int bc)) ms)\<rparr>"
  obtain r4 w4 where rn: "render_html env ms ?w3 = (r4, w4)" by (metis surj_pair)
  with assms(3) render_html_fst_indep [of env ms wa ?w3] have "r4 = Inl err" by simp
  with rn show ?thesis
    unfolding runNet_body_def ConnectNodes_def
    by (simp add: assms(1) generate_blocks_eq emit_def wait_futures_all_ok [OF assms(2)])
qed

text \<open>
  C7. Rendering calls \<open>RenderDagsDot\<close>, \<open>DotToSvg\<close>, \<open>StripSvgXmlDecl\<close> and
  \<open>RenderSvgHTML\<close> (title \<open>dag\<close>) in this order, each on the result of the one before. The
  first of them to fail ends the rendering with its error wrapped in the message of that
  stage, and no later stage is called. When rendering fails, \<open>runNet\<close> returns the empty
  string with an error (the wrapped one, when the run reaches rendering) and makes no call
  that creates or writes a file.
\<close>

theorem render_pipeline_aborts:
  "(render_dags_dot env miners = Inl err \<longrightarrow>
      render_html env miners w =
        (Inl (Errorf ''failed to render dag in graphviz DOT format: %s'' [ArgError err]),
         w\<lparr>trace := trace w @ [E_RenderDagsDot miners]\<rparr>)) \<and>
   (render_dags_dot env miners = Inr dot \<and> dot_to_svg env dot = Inl err \<longrightarrow>
      render_html env miners w =
        (Inl (Errorf ''failed to convert DOT file to SVG: %s'' [ArgError err]),
         w\<lparr>trace := trace w @ [E_RenderDagsDot miners, E_DotToSvg dot]\<rparr>)) \<and>
   (render_dags_dot env miners = Inr dot \<and> dot_to_svg env dot = Inr svg \<and>
    strip_svg_xml_decl env svg = Inl err \<longrightarrow>
      render_html env miners w =
        (Inl (Errorf ''failed to strip xml declaration from SVG image: %s'' [ArgError err]),
         w\<lparr>trace := trace w @
            [E_RenderDagsDot miners, E_DotToSvg dot, E_StripSvgXmlDecl svg]\<rparr>)) \<and>
   (render_dags_dot env miners = Inr dot \<and> dot_to_svg env dot = Inr svg \<and>
    strip_svg_xml_decl env svg = Inr svgEmbed \<and>
    render_svg_html env svgEmbed ''dag'' = Inl err \<longrightarrow>
      render_html env miners w =
        (Inl (Errorf ''failed to render SVG image as HTML: %s'' [ArgError err]),
         w\<lparr>trace := trace w @
            [E_RenderDagsDot miners, E_DotToSvg dot, E_StripSvgXmlDecl svg,
             E_RenderSvgHTML svgEmbed ''dag'']\<rparr>)) \<and>
   (render_dags_dot env miners = Inr dot \<and> dot_to_svg env dot = Inr svg \<and>
    strip_svg_xml_decl env svg = Inr svgEmbed \<and>
    render_svg_html env svgEmbed ''dag'' = Inr h \<longrightarrow>
      render_html env miners w =
        (Inr h,
         w\<lparr>trace := trace w @
            [E_RenderDagsDot miners, E_DotToSvg dot, E_StripSvgXmlDecl svg,
             E_RenderSvgHTML svgEmbed ''dag'']\<rparr>)) \<and>
   (fst (render_html env (map Harness [news w0..<news w0 + nat minerCount]) w) = Inl e \<and>
    runNet env minerCount blockCount output w0 = (r, w') \<longrightarrow>
      fst r = [] \<and> snd r \<noteq> None \<and>
      (\<exists>es. trace w' = trace w0 @ es \<and> (\<forall>ev\<in>set es. stage_of ev \<noteq> S_Output)) \<and>
      (provisioned env (news w0) (nat minerCount) \<and>
       connect_err env (map Harness [news w0..<news w0 + nat minerCount]) = None \<and>
       list_all (\<lambda>f. \<not> isl (receive_res env f))
         (map (\<lambda>m. FutureGenerateResult m (word_of_int blockCount))
            (map Harness [news w0..<news w0 + nat minerCount])) \<longrightarrow>
       snd r = Some e))"
proof (intro conjI impI; (elim conjE)?)
  let ?ms = "map Harness [news w0..<news w0 + nat minerCount]"
  let ?T = "map (\<lambda>m. E_TearDown m (teardown_err env m)) ?ms"
  assume f: "fst (render_html env ?ms w) = Inl e"
    and rn: "runNet env minerCount blockCount output w0 = (r, w')"
  obtain s w1 where sp: "spawn_miners env 0 minerCount [] w0 = (s, w1)" by (metis surj_pair)
  from spawn_miners_stage [OF sp] obtain es where
    t1: "trace w1 = trace w0 @ es" and st1: "\<forall>e\<in>set es. stage_of e = S_Provision" by blast
  have "fst r = [] \<and> snd r \<noteq> None \<and>
      (\<exists>es. trace w' = trace w0 @ es \<and> (\<forall>ev\<in>set es. stage_of ev \<noteq> S_Output))"
  proof (cases s)
    case (Inl err)
    with sp rn have "w' = w1" "r = ([], Some err)" by (simp_all add: runNet_def)
    with t1 st1 show ?thesis by auto
  next
    case (Inr ms)
    with sp have "provisioned env (news w0) (nat minerCount)"
      using spawn_miners_Inr_provisioned [of env 0 minerCount "[]" w0 ms w1] by simp
    from runNet_provisioned [OF this, of blockCount "output"] sp rn obtain w2 where
      b: "runNet_body env ?ms blockCount output w1 = (r, w2)" and
      w': "w' = teardown_miners env ?ms w2"
      by auto
    from runNet_body_render_fails [OF b f] obtain es2 where
      r: "fst r = []" "snd r \<noteq> None" and t2: "trace w2 = trace w1 @ es2" and
      st2: "\<forall>e\<in>set es2. stage_of e \<noteq> S_Output" by blast
    from w' t1 t2 have "trace w' = trace w0 @ (es @ es2 @ ?T)"
      by (simp add: teardown_miners_trace)
    moreover from st1 st2 have "\<forall>e\<in>set (es @ es2 @ ?T). stage_of e \<noteq> S_Output" by auto
    ultimately show ?thesis using r by blast
  qed
  then show "fst r = []" "snd r \<noteq> None"
    "\<exists>es. trace w' = trace w0 @ es \<and> (\<forall>ev\<in>set es. stage_of ev \<noteq> S_Output)"
    by blast+
  assume p: "provisioned env (news w0) (nat minerCount)"
    and c: "connect_err env ?ms = None"
    and a: "list_all (\<lambda>f. \<not> isl (receive_res env f))
         (map (\<lambda>m. FutureGenerateResult m (word_of_int blockCount)) ?ms)"
  from runNet_provisioned [OF p, of blockCount "output"] rn obtain w1 w2 where
    "runNet_body env ?ms blockCount output w1 = (r, w2)" by auto
  with runNet_body_render_error [OF c a f, of "output" w1] show "snd r = Some e" by simp
qed (simp_all add: render_html_def RenderDagsDot_def DotToSvg_def StripSvgXmlDecl_def
      RenderSvgHTML_def emit_def)

lemmas env_render_fails_simps = env_render_fails_def env_ok_def

theorem render_pipeline_aborts_witness:
  "render_html (env_render_fails 0) [Harness 0] world0 =
     (Inl (Errorf ''failed to render dag in graphviz DOT format: %s'' [ArgError (Error ''boom'')]),
      \<lparr>trace = [E_RenderDagsDot [Harness 0]], news = 0\<rparr>) \<and>
   render_html (env_render_fails 1) [Harness 0] world0 =
     (Inl (Errorf ''failed to convert DOT file to SVG: %s'' [ArgError (Error ''boom'')]),
      \<lparr>trace = [E_RenderDagsDot [Harness 0], E_DotToSvg [1]], news = 0\<rparr>) \<and>
   render_html (env_render_fails 2) [Harness 0] world0 =
     (Inl (Errorf ''failed to strip xml declaration from SVG image: %s''
             [ArgError (Error ''boom'')]),
      \<lparr>trace = [E_RenderDagsDot [Harness 0], E_DotToSvg [1], E_StripSvgXmlDecl [2]],
       news = 0\<rparr>) \<and>
   render_html (env_render_fails 3) [Harness 0] world0 =
     (Inl (Errorf ''failed to render SVG image as HTML: %s'' [ArgError (Error ''boom'')]),
      \<lparr>trace = [E_RenderDagsDot [Harness 0], E_DotToSvg [1], E_StripSvgXmlDecl [2],
                E_RenderSvgHTML [3] ''dag''], news = 0\<rparr>) \<and>
   render_html env_ok [Harness 0] world0 =
     (Inr [4],
      \<lparr>trace = [E_RenderDagsDot [Harness 0], E_DotToSvg [1], E_StripSvgXmlDecl [2],
                E_RenderSvgHTML [3] ''dag''], news = 0\<rparr>) \<and>
   fst (runNet (env_render_fails 1) 1 50 [] world0) =
     ([], Some (Errorf ''failed to convert DOT file to SVG: %s'' [ArgError (Error ''boom'')])) \<and>
   (\<exists>es. trace (snd (runNet (env_render_fails 1) 1 50 [] world0)) = trace world0 @ es \<and>
      (\<forall>ev\<in>set es. stage_of ev \<noteq> S_Output))"
proof -
  note t = render_pipeline_aborts [where miners = "[Harness 0]" and w = world0
      and err = "Error ''boom''" and dot = "[1]" and svg = "[2]" and svgEmbed = "[3]" and h = "[4]"]
  have 0: "render_html (env_render_fails 0) [Harness 0] world0 =
     (Inl (Errorf ''failed to render dag in graphviz DOT format: %s'' [ArgError (Error ''boom'')]),
      \<lparr>trace = [E_RenderDagsDot [Harness 0]], news = 0\<rparr>)"
    using t [where env = "env_render_fails 0"]
    by (simp add: env_render_fails_simps world0_def)
  have 1: "render_html (env_render_fails 1) [Harness 0] world0 =
     (Inl (Errorf ''failed to convert DOT file to SVG: %s'' [ArgError (Error ''boom'')]),
      \<lparr>trace = [E_RenderDagsDot [Harness 0], E_DotToSvg [1]], news = 0\<rparr>)"
    using t [where env = "env_render_fails 1"]
    by (simp add: env_render_fails_simps world0_def)
  have 2: "render_html (env_render_fails 2) [Harness 0] world0 =
     (Inl (Errorf ''failed to strip xml declaration from SVG image: %s''
             [ArgError (Error ''boom'')]),
      \<lparr>trace = [E_RenderDagsDot [Harness 0], E_DotToSvg [1], E_StripSvgXmlDecl [2]],
       news = 0\<rparr>)"
    using t [where env = "env_render_fails 2"]
    by (simp add: env_render_fails_simps world0_def)
  have 3: "render_html (env_render_fails 3) [Harness 0] world0 =
     (Inl (Errorf ''failed to render SVG image as HTML: %s'' [ArgError (Error ''boom'')]),
      \<lparr>trace = [E_RenderDagsDot [Harness 0], E_DotToSvg [1], E_StripSvgXmlDecl [2],
                E_RenderSvgHTML [3] ''dag''], news = 0\<rparr>)"
    using t [where env = "env_render_fails 3"]
    by (simp add: env_render_fails_simps world0_def)
  have 4: "render_html env_ok [Harness 0] world0 =
     (Inr [4],
      \<lparr>trace = [E_RenderDagsDot [Harness 0], E_DotToSvg [1], E_StripSvgXmlDecl [2],
                E_RenderSvgHTML [3] ''dag''], news = 0\<rparr>)"
    using t [where env = env_ok]
    by (simp add: env_ok_def world0_def)
  have m: "map Harness [news world0..<news world0 + nat 1] = [Harness 0]"
    by (simp add: world0_def)
  have p: "provisioned (env_render_fails 1) (news world0) (nat 1)"
    by (simp add: provisioned_def env_render_fails_simps world0_def)
  have c: "connect_err (env_render_fails 1) [Harness 0] = None"
    by (simp add: env_render_fails_simps)
  have a: "list_all (\<lambda>f. \<not> isl (receive_res (env_render_fails 1) f))
         (map (\<lambda>m. FutureGenerateResult m (word_of_int 50)) [Harness 0])"
    by (simp add: env_render_fails_simps)
  have f: "fst (render_html (env_render_fails 1) [Harness 0] world0) =
      Inl (Errorf ''failed to convert DOT file to SVG: %s'' [ArgError (Error ''boom'')])"
    by (simp add: 1)
  note b = t [where env = "env_render_fails 1" and ?w0.0 = world0 and minerCount = 1
      and blockCount = 50 and ?output = "[]"
      and e = "Errorf ''failed to convert DOT file to SVG: %s'' [ArgError (Error ''boom'')]"
      and r = "fst (runNet (env_render_fails 1) 1 50 [] world0)"
      and w' = "snd (runNet (env_render_fails 1) 1 50 [] world0)", unfolded m]
  from b f p c a have 5: "fst (runNet (env_render_fails 1) 1 50 [] world0) =
     ([], Some (Errorf ''failed to convert DOT file to SVG: %s'' [ArgError (Error ''boom'')]))"
    by (simp add: prod_eq_iff del: list.pred_inject)
  from b f have 6: "\<exists>es. trace (snd (runNet (env_render_fails 1) 1 50 [] world0)) = trace world0 @ es \<and>
      (\<forall>ev\<in>set es. stage_of ev \<noteq> S_Output)"
    by simp
  from 0 1 2 3 4 5 6 show ?thesis by blast
qed

section \<open>The executable\<close>

lemma runNet_stage:
  assumes "runNet env minerCount blockCount output w = (r, w')"
  shows "\<exists>es. trace w' = trace w @ es \<and> (\<forall>e\<in>set es. stage_of e \<noteq> S_Console)"
proof -
  obtain s w1 where sp: "spawn_miners env 0 minerCount [] w = (s, w1)" by (metis surj_pair)
  from spawn_miners_stage [OF sp] obtain es where
    t1: "trace w1 = trace w @ es" and st1: "\<forall>e\<in>set es. stage_of e = S_Provision" by blast
  show ?thesis
  proof (cases s)
    case (Inl err)
    with sp assms have "w' = w1" by (simp add: runNet_def)
    with t1 st1 show ?thesis by auto
  next
    case (Inr ms)
    let ?ms = "map Harness [news w..<news w + nat minerCount]"
    let ?T = "map (\<lambda>m. E_TearDown m (teardown_err env m)) ?ms"
    from Inr sp have "provisioned env (news w) (nat minerCount)"
      using spawn_miners_Inr_provisioned [of env 0 minerCount "[]" w ms w1] by simp
    from runNet_provisioned [OF this, of blockCount "output"] sp assms obtain w2 where
      b: "runNet_body env ?ms blockCount output w1 = (r, w2)" and
      w': "w' = teardown_miners env ?ms w2"
      by auto
    from runNet_body_stage [OF b] obtain rest where
      t2: "trace w2 = trace w1 @ E_ConnectNodes ?ms # rest" and
      st2: "\<forall>e\<in>set rest. stage_of e \<in> {S_Dispatch, S_Collect, S_Render, S_Output}"
      by blast
    from w' t1 t2 have "trace w' = trace w @ (es @ E_ConnectNodes ?ms # rest @ ?T)"
      by (simp add: teardown_miners_trace)
    moreover from st1 st2 have "\<forall>e\<in>set (es @ E_ConnectNodes ?ms # rest @ ?T). stage_of e \<noteq> S_Console"
      by auto
    ultimately show ?thesis by blast
  qed
qed

lemma main_ok:
  "main env_ok [] world0 =
     (0, \<lparr>trace =
        [E_Println [ArgString ''Generating dag''],
         E_New 0, E_SetUp (Harness 0), E_New 1, E_SetUp (Harness 1),
         E_New 2, E_SetUp (Harness 2), E_New 3, E_SetUp (Harness 3),
         E_ConnectNodes [Harness 0, Harness 1, Harness 2, Harness 3],
         E_GenerateAsync (Harness 0) 50, E_GenerateAsync (Harness 1) 50,
         E_GenerateAsync (Harness 2) 50, E_GenerateAsync (Harness 3) 50,
         E_Receive (FutureGenerateResult (Harness 0) 50),
         E_Receive (FutureGenerateResult (Harness 1) 50),
         E_Receive (FutureGenerateResult (Harness 2) 50),
         E_Receive (FutureGenerateResult (Harness 3) 50),
         E_RenderDagsDot [Harness 0, Harness 1, Harness 2, Harness 3], E_DotToSvg [1],
         E_StripSvgXmlDecl [2], E_RenderSvgHTML [3] ''dag'',
         E_TempFile [] ''dag_*.html'',
         E_Write (File ''/dag_1.html'') [4], E_Close (File ''/dag_1.html''),
         E_TearDown (Harness 0) None, E_TearDown (Harness 1) None,
         E_TearDown (Harness 2) None, E_TearDown (Harness 3) None,
         E_Println [ArgString ''Saved dag to'', ArgString ''/dag_1.html'']],
       news = 4\<rparr>)"
  by (simp add: main_def run_defs prim_defs env_ok_def world0_def)

lemma main_new2_fails:
  "main env_new2_fails [] world0 =
     (1, \<lparr>trace =
        [E_Println [ArgString ''Generating dag''],
         E_New 0, E_SetUp (Harness 0), E_New 1, E_SetUp (Harness 1), E_New 2,
         E_Println [ArgError (Errorf ''unable to create mining node %d: %s''
                                [ArgInt 2, ArgError (Error ''boom'')])]],
       news = 3\<rparr>)"
  by (simp add: main_def run_defs prim_defs env_new2_fails_def env_ok_def world0_def)

lemma runNet_body_connected:
  assumes "runNet_body env ms bc out w = (r, w')" and "connect_err env ms = None"
  shows "\<exists>tail. trace w' =
           trace w @ E_ConnectNodes ms # map (\<lambda>m. E_GenerateAsync m (word_of_int bc)) ms @ tail"
proof -
  obtain futs w2 where g: "generate_blocks ms bc [] (emit (E_ConnectNodes ms) w) = (futs, w2)"
    by (metis surj_pair)
  then have t2: "trace w2 =
      trace w @ E_ConnectNodes ms # map (\<lambda>m. E_GenerateAsync m (word_of_int bc)) ms"
    by (auto simp: generate_blocks_eq)
  from assms g obtain tail where "trace w' = trace w2 @ tail"
    unfolding runNet_body_def ConnectNodes_def
    by (auto dest!: after_dispatch_stage)
  with t2 show ?thesis by simp
qed

lemma runNet_dispatches:
  assumes "runNet env minerCount blockCount output w = (r, w')"
    and "provisioned env (news w) (nat minerCount)"
    and "connect_err env (map Harness [news w..<news w + nat minerCount]) = None"
  shows "\<exists>tail. trace w' =
           trace w @ spawn_events (news w) (nat minerCount) @
           E_ConnectNodes (map Harness [news w..<news w + nat minerCount]) #
           map (\<lambda>m. E_GenerateAsync m (word_of_int blockCount))
             (map Harness [news w..<news w + nat minerCount]) @ tail"
proof -
  let ?ms = "map Harness [news w..<news w + nat minerCount]"
  let ?T = "map (\<lambda>m. E_TearDown m (teardown_err env m)) ?ms"
  from runNet_provisioned [OF assms(2), of blockCount "output"] assms(1) obtain w1 w2 where
    t1: "trace w1 = trace w @ spawn_events (news w) (nat minerCount)" and
    b: "runNet_body env ?ms blockCount output w1 = (r, w2)" and
    w': "w' = teardown_miners env ?ms w2"
    by auto
  from runNet_body_connected [OF b assms(3)] obtain tail where
    "trace w2 = trace w1 @ E_ConnectNodes ?ms #
       map (\<lambda>m. E_GenerateAsync m (word_of_int blockCount)) ?ms @ tail" by blast
  with w' t1 have "trace w' = trace w @ spawn_events (news w) (nat minerCount) @
      E_ConnectNodes ?ms # map (\<lambda>m. E_GenerateAsync m (word_of_int blockCount)) ?ms @ (tail @ ?T)"
    by (simp add: teardown_miners_trace)
  then show ?thesis by blast
qed

text \<open>
  C8. \<open>main\<close> prints \<open>Generating dag\<close>, then makes exactly the calls of
  \<open>runNet(4, 50, output)\<close>, none of which prints, then prints once more: on success
  \<open>Saved dag to\<close> with the path \<open>runNet\<close> returned, with exit status 0; on an error the
  error, with exit status 1. When the four nodes are provisioned and connected, the calls of
  \<open>runNet\<close> start with the four \<open>New\<close> and \<open>SetUp\<close> pairs, \<open>ConnectNodes\<close> on the four
  handles and one \<open>GenerateAsync(50)\<close> per handle.
\<close>

theorem main_exit_status:
  assumes "main env output w = (code, w')"
  shows "\<exists>name err w2 es.
           runNet env 4 50 output (Println [ArgString ''Generating dag''] w) = ((name, err), w2) \<and>
           trace w2 = trace w @ E_Println [ArgString ''Generating dag''] # es \<and>
           (\<forall>ev\<in>set es. stage_of ev \<noteq> S_Console) \<and>
           (provisioned env (news w) 4 \<and>
            connect_err env (map Harness [news w..<news w + 4]) = None \<longrightarrow>
              (\<exists>tail. es =
                 spawn_events (news w) 4 @
                 E_ConnectNodes (map Harness [news w..<news w + 4]) #
                 map (\<lambda>m. E_GenerateAsync m 50) (map Harness [news w..<news w + 4]) @ tail)) \<and>
           w' = Println (case err of
                           None \<Rightarrow> [ArgString ''Saved dag to'', ArgString name]
                         | Some e \<Rightarrow> [ArgError e]) w2 \<and>
           trace w' =
             trace w @ E_Println [ArgString ''Generating dag''] # es @
             [E_Println (case err of
                           None \<Rightarrow> [ArgString ''Saved dag to'', ArgString name]
                         | Some e \<Rightarrow> [ArgError e])] \<and>
           code = (case err of None \<Rightarrow> 0 | Some e \<Rightarrow> 1)"
proof -
  let ?w1 = "Println [ArgString ''Generating dag''] w"
  let ?hs = "map Harness [news w..<news w + 4]"
  obtain name err w2 where rn: "runNet env 4 50 output ?w1 = ((name, err), w2)"
    by (metis surj_pair)
  have n1: "news ?w1 = news w" and tr1: "trace ?w1 = trace w @ [E_Println [ArgString ''Generating dag'']]"
    by (simp_all add: Println_def)
  from runNet_stage [OF rn] obtain es where
    t: "trace w2 = trace w @ E_Println [ArgString ''Generating dag''] # es" and
    st: "\<forall>ev\<in>set es. stage_of ev \<noteq> S_Console"
    by (auto simp: tr1)
  have d: "\<exists>tail. es = spawn_events (news w) 4 @ E_ConnectNodes ?hs #
                 map (\<lambda>m. E_GenerateAsync m 50) ?hs @ tail"
    if p: "provisioned env (news w) 4" and c: "connect_err env ?hs = None"
  proof -
    from p have p': "provisioned env (news ?w1) (nat 4)" by (simp add: n1)
    from c have c': "connect_err env (map Harness [news ?w1..<news ?w1 + nat 4]) = None"
      by (simp add: n1)
    from runNet_dispatches [OF rn p' c'] obtain tail where
      "trace w2 = trace ?w1 @ spawn_events (news ?w1) (nat 4) @
         E_ConnectNodes (map Harness [news ?w1..<news ?w1 + nat 4]) #
         map (\<lambda>m. E_GenerateAsync m (word_of_int 50))
           (map Harness [news ?w1..<news ?w1 + nat 4]) @ tail" by blast
    then have "trace w2 = trace w @ E_Println [ArgString ''Generating dag''] #
        (spawn_events (news w) 4 @ E_ConnectNodes ?hs #
          map (\<lambda>m. E_GenerateAsync m 50) ?hs @ tail)"
      by (simp add: n1 tr1)
    with t have "es = spawn_events (news w) 4 @ E_ConnectNodes ?hs #
          map (\<lambda>m. E_GenerateAsync m 50) ?hs @ tail"
      by simp
    then show ?thesis by blast
  qed
  from assms rn have
    c: "code = (case err of None \<Rightarrow> 0 | Some e \<Rightarrow> 1)" and
    w': "w' = Println (case err of
                           None \<Rightarrow> [ArgString ''Saved dag to'', ArgString name]
                         | Some e \<Rightarrow> [ArgError e]) w2"
    by (auto simp: main_def Let_def split: option.splits)
  from w' t have t': "trace w' =
             trace w @ E_Println [ArgString ''Generating dag''] # es @
             [E_Println (case err of
                           None \<Rightarrow> [ArgString ''Saved dag to'', ArgString name]
                         | Some e \<Rightarrow> [ArgError e])]"
    by (simp add: Println_def)
  from d have d': "provisioned env (news w) 4 \<and> connect_err env ?hs = None \<longrightarrow>
      (\<exists>tail. es = spawn_events (news w) 4 @ E_ConnectNodes ?hs #
                 map (\<lambda>m. E_GenerateAsync m 50) ?hs @ tail)"
    by blast
  show ?thesis
    by (rule exI [of _ name], rule exI [of _ err], rule exI [of _ w2], rule exI [of _ es])
       (intro conjI rn t st d' w' t' c)
qed

theorem main_exit_status_witness:
  "provisioned env_ok (news world0) 4 \<and>
   connect_err env_ok (map Harness [news world0..<news world0 + 4]) = None \<and>
   (\<exists>name err w2 es.
      runNet env_ok 4 50 [] (Println [ArgString ''Generating dag''] world0) = ((name, err), w2) \<and>
      trace w2 = trace world0 @ E_Println [ArgString ''Generating dag''] # es \<and>
      (\<forall>ev\<in>set es. stage_of ev \<noteq> S_Console) \<and>
      (provisioned env_ok (news world0) 4 \<and>
       connect_err env_ok (map Harness [news world0..<news world0 + 4]) = None \<longrightarrow>
         (\<exists>tail. es =
            spawn_events (news world0) 4 @
            E_ConnectNodes (map Harness [news world0..<news world0 + 4]) #
            map (\<lambda>m. E_GenerateAsync m 50) (map Harness [news world0..<news world0 + 4]) @
            tail)) \<and>
      snd (main env_ok [] world0) =
        Println (case err of
                   None \<Rightarrow> [ArgString ''Saved dag to'', ArgString name]
                 | Some e \<Rightarrow> [ArgError e]) w2 \<and>
      trace (snd (main env_ok [] world0)) =
        trace world0 @ E_Println [ArgString ''Generating dag''] # es @
        [E_Println (case err of
                      None \<Rightarrow> [ArgString ''Saved dag to'', ArgString name]
                    | Some e \<Rightarrow> [ArgError e])] \<and>
      (0::int) = (case err of None \<Rightarrow> 0 | Some e \<Rightarrow> 1)) \<and>
   (\<exists>name err w2 es.
      runNet env_new2_fails 4 50 [] (Println [ArgString ''Generating dag''] world0) =
        ((name, err), w2) \<and>
      trace w2 = trace world0 @ E_Println [ArgString ''Generating dag''] # es \<and>
      (\<forall>ev\<in>set es. stage_of ev \<noteq> S_Console) \<and>
      (provisioned env_new2_fails (news world0) 4 \<and>
       connect_err env_new2_fails (map Harness [news world0..<news world0 + 4]) = None \<longrightarrow>
         (\<exists>tail. es =
            spawn_events (news world0) 4 @
            E_ConnectNodes (map Harness [news world0..<news world0 + 4]) #
            map (\<lambda>m. E_GenerateAsync m 50) (map Harness [news world0..<news world0 + 4]) @
            tail)) \<and>
      snd (main env_new2_fails [] world0) =
        Println (case err of
                   None \<Rightarrow> [ArgString ''Saved dag to'', ArgString name]
                 | Some e \<Rightarrow> [ArgError e]) w2 \<and>
      trace (snd (main env_new2_fails [] world0)) =
        trace world0 @ E_Println [ArgString ''Generating dag''] # es @
        [E_Println (case err of
                      None \<Rightarrow> [ArgString ''Saved dag to'', ArgString name]
                    | Some e \<Rightarrow> [ArgError e])] \<and>
      (1::int) = (case err of None \<Rightarrow> 0 | Some e \<Rightarrow> 1))"
proof (intro conjI)
  show "provisioned env_ok (news world0) 4"
    by (simp add: provisioned_def env_ok_def list_all_iff)
  show "connect_err env_ok (map Harness [news world0..<news world0 + 4]) = None"
    by (simp add: env_ok_def)
  have a: "main env_ok [] world0 = (0, snd (main env_ok [] world0))" by (simp add: main_ok)
  show "\<exists>name err w2 es.
      runNet env_ok 4 50 [] (Println [ArgString ''Generating dag''] world0) = ((name, err), w2) \<and>
      trace w2 = trace world0 @ E_Println [ArgString ''Generating dag''] # es \<and>
      (\<forall>ev\<in>set es. stage_of ev \<noteq> S_Console) \<and>
      (provisioned env_ok (news world0) 4 \<and>
       connect_err env_ok (map Harness [news world0..<news world0 + 4]) = None \<longrightarrow>
         (\<exists>tail. es =
            spawn_events (news world0) 4 @
            E_ConnectNodes (map Harness [news world0..<news world0 + 4]) #
            map (\<lambda>m. E_GenerateAsync m 50) (map Harness [news world0..<news world0 + 4]) @
            tail)) \<and>
      snd (main env_ok [] world0) =
        Println (case err of
                   None \<Rightarrow> [ArgString ''Saved dag to'', ArgString name]
                 | Some e \<Rightarrow> [ArgError e]) w2 \<and>
      trace (snd (main env_ok [] world0)) =
        trace world0 @ E_Println [ArgString ''Generating dag''] # es @
        [E_Println (case err of
                      None \<Rightarrow> [ArgString ''Saved dag to'', ArgString name]
                    | Some e \<Rightarrow> [ArgError e])] \<and>
      (0::int) = (case err of None \<Rightarrow> 0 | Some e \<Rightarrow> 1)"
    by (rule main_exit_status [OF a])
  have b: "main env_new2_fails [] world0 = (1, snd (main env_new2_fails [] world0))"
    by (simp add: main_new2_fails)
  show "\<exists>name err w2 es.
      runNet env_new2_fails 4 50 [] (Println [ArgString ''Generating dag''] world0) =
        ((name, err), w2) \<and>
      trace w2 = trace world0 @ E_Println [ArgString ''Generating dag''] # es \<and>
      (\<forall>ev\<in>set es. stage_of ev \<noteq> S_Console) \<and>
      (provisioned env_new2_fails (news world0) 4 \<and>
       connect_err env_new2_fails (map Harness [news world0..<news world0 + 4]) = None \<longrightarrow>
         (\<exists>tail. es =
            spawn_events (news world0) 4 @
            E_ConnectNodes (map Harness [news world0..<news world0 + 4]) #
            map (\<lambda>m. E_GenerateAsync m 50) (map Harness [news world0..<news world0 + 4]) @
            tail)) \<and>
      snd (main env_new2_fails [] world0) =
        Println (case err of
                   None \<Rightarrow> [ArgString ''Saved dag to'', ArgString name]
                 | Some e \<Rightarrow> [ArgError e]) w2 \<and>
      trace (snd (main env_new2_fails [] world0)) =
        trace world0 @ E_Println [ArgString ''Generating dag''] # es @
        [E_Println (case err of
                      None \<Rightarrow> [ArgString ''Saved dag to'', ArgString name]
                    | Some e \<Rightarrow> [ArgError e])] \<and>
      (1::int) = (case err of None \<Rightarrow> 0 | Some e \<Rightarrow> 1)"
    by (rule main_exit_status [OF b])
qed

end
